theory Spec2Isabelle
  imports Complex_Main "HOL-Library.AList"
begin

section \<open>JavaScript values used by useAPI.ts\<close>

text \<open>
  Strings are byte strings (UTF-8). A value of type \<open>string option\<close> is a JavaScript
  \<open>string | null | undefined\<close>: \<open>None\<close> is the absent value (\<open>null\<close> from
  \<open>Storage.getItem\<close>, \<open>undefined\<close> from the storage hooks).
\<close>

datatype jsonval =
    JNull
  | JBool bool
  | JNum real
  | JStr string
  | JArr "jsonval list"
  | JObj "(string \<times> jsonval) list"

text \<open>A JavaScript value that is either \<open>undefined\<close> (\<open>None\<close>) or a JSON value.\<close>

type_synonym jsval = "jsonval option"

text \<open>Truthiness of a \<open>string | null | undefined\<close>: only a non-empty string is truthy.\<close>

definition truthy :: "string option \<Rightarrow> bool" where
  "truthy v = (case v of None \<Rightarrow> False | Some s \<Rightarrow> s \<noteq> [])"

text \<open>The operator \<open>a || b\<close> on such values.\<close>

definition js_or :: "string option \<Rightarrow> string option \<Rightarrow> string option" where
  "js_or a b = (if truthy a then a else b)"

text \<open>\<open>v || ''\<close>: always a string.\<close>

definition or_empty :: "string option \<Rightarrow> string" where
  "or_empty v = (case js_or v (Some []) of None \<Rightarrow> [] | Some s \<Rightarrow> s)"

text \<open>A nullable string as a JSON value (\<open>null\<close> when absent).\<close>

definition of_nullable :: "string option \<Rightarrow> jsonval" where
  "of_nullable v = (case v of None \<Rightarrow> JNull | Some s \<Rightarrow> JStr s)"

text \<open>
  Property read \<open>v.k\<close> for the keys the hook reads (\<open>access_token\<close>, \<open>refresh_token\<close>,
  \<open>token_type\<close>, \<open>detail\<close>, \<open>exp\<close>), none of which is a prototype property: on \<open>undefined\<close>
  and \<open>null\<close> the read throws a TypeError (\<open>Inl\<close>, carrying the property name), on an
  object it is the member or \<open>undefined\<close>, on every other value it is \<open>undefined\<close>.
\<close>

definition get_prop :: "jsval \<Rightarrow> string \<Rightarrow> string + jsval" where
  "get_prop v k =
     (case v of
        None \<Rightarrow> Inl k
      | Some JNull \<Rightarrow> Inl k
      | Some (JObj kvs) \<Rightarrow> Inr (map_of kvs k)
      | Some _ \<Rightarrow> Inr None)"

text \<open>
  The same read where the value is known to be an object (the result of a token request):
  \<open>undefined\<close> stands for a read that cannot happen.
\<close>

definition read_prop :: "jsval \<Rightarrow> string \<Rightarrow> jsval" where
  "read_prop v k = (case get_prop v k of Inl _ \<Rightarrow> None | Inr x \<Rightarrow> x)"

section \<open>The environment: collaborators outside the source\<close>

datatype Method = GET | POST | PUT | DELETE

text \<open>One call \<open>fetch(url, {method, headers, body})\<close>.\<close>

datatype FetchRequest =
  Fetch (req_url: string) (req_method: Method)
        (req_headers: "(string \<times> string) list option") (req_body: "string option")

text \<open>
  The transport's response \<open>{status, ok, statusText, json()}\<close>; \<open>json\<close> is what
  \<open>resp.json()\<close> settles to: the parsed body, or the message of the error it rejects with.
\<close>

record FetchResponse =
  status :: int
  ok :: bool
  statusText :: string
  json :: "string + jsonval"

datatype FetchResult = Rejected string | Resolved FetchResponse

text \<open>A JavaScript number: a real, or one of the three values that are none.\<close>

datatype number = NaN | Num real | PlusInfinity | MinusInfinity

text \<open>
  \<^item> \<open>fetch\<close>: the transport, given the calls made so far and the new call;
  \<^item> \<open>jwtDecode\<close>: the jwt-decode library: \<open>None\<close> when it throws, else the value that
    \<open>JSON.parse\<close> makes of the token's payload, whatever that value is (the hook does
    not check it against \<open>TokenData\<close>);
  \<^item> \<open>ToString\<close>: JavaScript's string conversion of a number, array or object;
  \<^item> \<open>ToNumber\<close>: JavaScript's number conversion of a string, array or object;
  \<^item> \<open>nullReadMessage\<close>: the engine's TypeError message for reading a property of
    \<open>null\<close>.
\<close>

record Env =
  fetch :: "FetchRequest list \<Rightarrow> FetchRequest \<Rightarrow> FetchResult"
  jwtDecode :: "string \<Rightarrow> jsonval option"
  ToString :: "jsonval \<Rightarrow> string"
  ToNumber :: "jsonval \<Rightarrow> number"
  nullReadMessage :: "string \<Rightarrow> string"

text \<open>\<open>String(v)\<close>, also the conversion of a template literal.\<close>

definition js_String :: "Env \<Rightarrow> jsval \<Rightarrow> string" where
  "js_String env v =
     (case v of
        None \<Rightarrow> ''undefined''
      | Some JNull \<Rightarrow> ''null''
      | Some (JStr s) \<Rightarrow> s
      | Some (JBool b) \<Rightarrow> (if b then ''true'' else ''false'')
      | Some j \<Rightarrow> ToString env j)"

text \<open>The number conversion of a value in arithmetic and in a comparison with a number.\<close>

definition js_Number :: "Env \<Rightarrow> jsval \<Rightarrow> number" where
  "js_Number env v =
     (case v of
        None \<Rightarrow> NaN
      | Some JNull \<Rightarrow> Num 0
      | Some (JBool b) \<Rightarrow> Num (if b then 1 else 0)
      | Some (JNum r) \<Rightarrow> Num r
      | Some j \<Rightarrow> ToNumber env j)"

text \<open>
  \<open>n > x\<close>, \<open>n < x\<close> and \<open>n - c\<close> for a number \<open>n\<close> and reals \<open>x\<close>, \<open>c\<close>; a
  comparison with \<open>NaN\<close> is false. The arithmetic is exact, which agrees with the
  floating-point arithmetic of the source for all times and expiries of realistic
  magnitude.
\<close>

definition js_gt :: "number \<Rightarrow> real \<Rightarrow> bool" where
  "js_gt n x = (case n of Num r \<Rightarrow> r > x | PlusInfinity \<Rightarrow> True | _ \<Rightarrow> False)"

definition js_lt :: "number \<Rightarrow> real \<Rightarrow> bool" where
  "js_lt n x = (case n of Num r \<Rightarrow> r < x | MinusInfinity \<Rightarrow> True | _ \<Rightarrow> False)"

definition js_minus :: "number \<Rightarrow> real \<Rightarrow> number" where
  "js_minus n c = (case n of Num r \<Rightarrow> Num (r - c) | _ \<Rightarrow> n)"

section \<open>Token codec: \<open>decode_token\<close>\<close>

datatype 'a outcome = Returned 'a | Thrown string

text \<open>The object \<open>{ sub: '', iat: 0, exp: 0, api: '' }\<close>.\<close>

definition no_claims :: jsonval where
  "no_claims = JObj [(''sub'', JStr []), (''iat'', JNum 0), (''exp'', JNum 0), (''api'', JStr [])]"

text \<open>
  \<open>try { if (token) { return jwtDecode(token) } } catch (e) { }\<close>: the outcome of the
  \<open>try\<close> block, \<open>None\<close> when control falls through to the statement after it.
\<close>

definition decode_try :: "Env \<Rightarrow> string option \<Rightarrow> jsonval outcome option" where
  "decode_try env token =
     (if truthy token then
        (case jwtDecode env (or_empty token) of
           None \<Rightarrow> Some (Thrown ''InvalidTokenError'')
         | Some d \<Rightarrow> Some (Returned d))
      else None)"

text \<open>
  \<open>decode_token\<close> with its \<open>catch\<close>, which swallows what the block throws, and the
  final \<open>return { sub: '', iat: 0, exp: 0, api: '' }\<close>. What \<open>jwtDecode\<close> returns is
  returned as it is.
\<close>

definition decode_token_outcome :: "Env \<Rightarrow> string option \<Rightarrow> jsonval outcome" where
  "decode_token_outcome env token =
     (case decode_try env token of
        Some (Returned d) \<Rightarrow> Returned d
      | Some (Thrown e) \<Rightarrow> Returned no_claims
      | None \<Rightarrow> Returned no_claims)"

text \<open>The value \<open>decode_token\<close> returns (it always returns, as is proved below).\<close>

definition decode_token :: "Env \<Rightarrow> string option \<Rightarrow> jsonval" where
  "decode_token env token =
     (case decode_token_outcome env token of
        Returned d \<Rightarrow> d
      | Thrown e \<Rightarrow> no_claims)"

section \<open>\<open>URLSearchParams\<close>\<close>

text \<open>
  An ordered list of name/value pairs. \<open>get\<close> is the first value of a name;
  \<open>toString\<close> is the application/x-www-form-urlencoded serialisation: a space becomes
  \<open>+\<close>, the bytes \<open>* - . _\<close>, digits and ASCII letters stay, every other byte becomes
  \<open>%XX\<close> in upper-case hexadecimal.
\<close>

type_synonym URLSearchParams = "(string \<times> string) list"

definition params_get :: "URLSearchParams \<Rightarrow> string \<Rightarrow> string option" where
  "params_get ps k = map_of ps k"

definition hexdigit :: "nat \<Rightarrow> char" where
  "hexdigit n = ''0123456789ABCDEF'' ! n"

definition unreserved :: "char \<Rightarrow> bool" where
  "unreserved c =
     (let n = (of_char c :: nat)
      in (48 \<le> n \<and> n \<le> 57) \<or> (65 \<le> n \<and> n \<le> 90) \<or> (97 \<le> n \<and> n \<le> 122)
         \<or> c \<in> set ''*-._'')"

definition encode_byte :: "char \<Rightarrow> string" where
  "encode_byte c =
     (if c = CHR '' '' then ''+''
      else if unreserved c then [c]
      else [CHR ''%'', hexdigit ((of_char c :: nat) div 16), hexdigit ((of_char c :: nat) mod 16)])"

definition form_encode :: "string \<Rightarrow> string" where
  "form_encode s = concat (map encode_byte s)"

fun join_amp :: "string list \<Rightarrow> string" where
  "join_amp [] = []"
| "join_amp [x] = x"
| "join_amp (x # y # ys) = x @ ''&'' @ join_amp (y # ys)"

definition params_toString :: "URLSearchParams \<Rightarrow> string" where
  "params_toString ps = join_amp (map (\<lambda>(k, v). form_encode k @ ''='' @ form_encode v) ps)"

section \<open>Types of useAPI.types.ts\<close>

text \<open>
  What the hook throws: an \<open>APIError\<close> with its message and code, or the engine's
  \<open>TypeError\<close> for a property read of \<open>null\<close>, which no \<open>catch\<close> of the hook wraps.
\<close>

datatype js_error = APIError string int | TypeError string

record APIRequest =
  http_method :: Method
  url :: string
  headers :: "(string \<times> string) list option"
  params :: "URLSearchParams option"
  body :: "string option"
  validate :: "(jsval \<Rightarrow> bool) option"
  validateOptional :: "(jsval \<Rightarrow> bool) option"
  validateList :: "(jsval \<Rightarrow> bool) option"

record APIResponse =
  code :: int
  data :: jsval

text \<open>\<open>typeof v === 'string'\<close>\<close>

definition is_string :: "jsval \<Rightarrow> bool" where
  "is_string v = (case v of Some (JStr s) \<Rightarrow> True | _ \<Rightarrow> False)"

text \<open>The type predicate for \<open>APIAuthTokens\<close>; its \<open>catch\<close> turns a throwing read into \<open>false\<close>.\<close>

definition isAPIAuthTokens :: "jsval \<Rightarrow> bool" where
  "isAPIAuthTokens val =
     (case get_prop val ''access_token'' of
        Inl e \<Rightarrow> False
      | Inr a \<Rightarrow>
          (case get_prop val ''refresh_token'' of
             Inl e \<Rightarrow> False
           | Inr r \<Rightarrow>
               (case get_prop val ''token_type'' of
                  Inl e \<Rightarrow> False
                | Inr t \<Rightarrow> is_string a \<and> is_string r \<and> t = Some (JStr ''bearer''))))"

section \<open>Token store and the state of one render of the hook\<close>

text \<open>One storage scope, with the two keys the hook uses; \<open>None\<close> is a key that is not set.\<close>

record Storage =
  access_token :: "string option"
  refresh_token :: "string option"

text \<open>
  The world the hook acts on: the durable scope (\<open>localStorage\<close>), the session scope
  (\<open>sessionStorage\<close>) and the transport calls made so far, oldest first.
\<close>

record World =
  localStorage :: Storage
  sessionStorage :: Storage
  calls :: "FetchRequest list"

text \<open>
  The values one render of \<open>useAPI\<close> binds and its callbacks close over: the four storage
  hook values and the state \<open>tokenData\<close>, which starts as \<open>no_claims\<close> and is set by
  the effect to what \<open>decode_token\<close> returns.
\<close>

record Snapshot =
  accessTokenLS :: "string option"
  refreshTokenLS :: "string option"
  accessTokenSS :: "string option"
  refreshTokenSS :: "string option"
  tokenData :: jsonval

definition accessToken :: "Snapshot \<Rightarrow> string option" where
  "accessToken snap = js_or (accessTokenLS snap) (accessTokenSS snap)"

definition refreshToken :: "Snapshot \<Rightarrow> string option" where
  "refreshToken snap = js_or (refreshTokenLS snap) (refreshTokenSS snap)"

text \<open>
  A render of the hook over a storage, once the effect
  \<open>setTokenData(decode_token(accessToken))\<close> has run.
\<close>

definition useAPI :: "Env \<Rightarrow> World \<Rightarrow> Snapshot" where
  "useAPI env w =
     \<lparr>accessTokenLS = access_token (localStorage w),
      refreshTokenLS = refresh_token (localStorage w),
      accessTokenSS = access_token (sessionStorage w),
      refreshTokenSS = refresh_token (sessionStorage w),
      tokenData = decode_token env
        (js_or (access_token (localStorage w)) (access_token (sessionStorage w)))\<rparr>"

text \<open>The first render over a storage, before the effect has run.\<close>

definition first_render :: "World \<Rightarrow> Snapshot" where
  "first_render w =
     \<lparr>accessTokenLS = access_token (localStorage w),
      refreshTokenLS = refresh_token (localStorage w),
      accessTokenSS = access_token (sessionStorage w),
      refreshTokenSS = refresh_token (sessionStorage w),
      tokenData = no_claims\<rparr>"

definition clear_tokens :: "World \<Rightarrow> World" where
  "clear_tokens w =
     w\<lparr>localStorage := (localStorage w)\<lparr>access_token := None, refresh_token := None\<rparr>,
       sessionStorage := (sessionStorage w)\<lparr>access_token := None, refresh_token := None\<rparr>\<rparr>"

section \<open>Request executor: \<open>runRawRequest\<close>\<close>

text \<open>The message of \<open>new APIError(data.detail, code)\<close>: empty when \<open>detail\<close> is undefined.\<close>

definition detail_message :: "Env \<Rightarrow> jsonval \<Rightarrow> string" where
  "detail_message env d =
     (case get_prop (Some d) ''detail'' of
        Inl k \<Rightarrow> nullReadMessage env k
      | Inr None \<Rightarrow> []
      | Inr (Some v) \<Rightarrow> js_String env (Some v))"

text \<open>
  The branch on \<open>code == 204\<close>: the data of the response, or the message of what is
  thrown (\<open>resp.json()\<close> rejecting, the read of \<open>data.detail\<close>, the \<open>APIError\<close> for a
  response that is not \<open>ok\<close>).
\<close>

definition response_data :: "Env \<Rightarrow> Snapshot \<Rightarrow> APIRequest \<Rightarrow> FetchResponse \<Rightarrow> string + jsval" where
  "response_data env snap options resp =
     (if status resp = 204 then
        (if url options = ''/api/oauth2/token/'' then
           Inr (Some (JObj [(''access_token'', JStr (or_empty (accessToken snap))),
                            (''refresh_token'', JStr (or_empty (refreshToken snap))),
                            (''token_type'', JStr ''bearer'')]))
         else Inr None)
      else
        (case json resp of
           Inl msg \<Rightarrow> Inl msg
         | Inr d \<Rightarrow> if \<not> ok resp then Inl (detail_message env d) else Inr (Some d)))"

text \<open>
  The three validators, in the order of the source; \<open>True\<close> when one of them fails.
  A validator is a type predicate: it returns a boolean for every value.
\<close>

definition validation_fails :: "APIRequest \<Rightarrow> jsval \<Rightarrow> bool" where
  "validation_fails options d =
     ((case validate options of None \<Rightarrow> False | Some f \<Rightarrow> \<not> f d)
      \<or> (case validateOptional options of None \<Rightarrow> False | Some f \<Rightarrow> d \<noteq> None \<and> \<not> f d)
      \<or> (case validateList options of
            None \<Rightarrow> False
          | Some f \<Rightarrow> (case d of Some (JArr xs) \<Rightarrow> \<not> list_all (\<lambda>v. f (Some v)) xs | _ \<Rightarrow> True)))"

definition fetch_request :: "APIRequest \<Rightarrow> FetchRequest" where
  "fetch_request options =
     Fetch (case params options of None \<Rightarrow> url options
            | Some p \<Rightarrow> url options @ ''?'' @ params_toString p)
           (http_method options) (headers options) (body options)"

text \<open>
  What \<open>runRawRequest\<close> makes of the settled \<open>fetch\<close>: every failure leaves as an
  \<open>APIError\<close> with the value of \<open>code\<close> at the time (\<open>-1\<close> before a status is known).
\<close>

definition settle :: "Env \<Rightarrow> Snapshot \<Rightarrow> APIRequest \<Rightarrow> FetchResult \<Rightarrow> js_error + APIResponse" where
  "settle env snap options res =
     (case res of
        Rejected msg \<Rightarrow> Inl (APIError msg (- 1))
      | Resolved resp \<Rightarrow>
          (case response_data env snap options resp of
             Inl msg \<Rightarrow> Inl (APIError msg (status resp))
           | Inr d \<Rightarrow>
               if validation_fails options d then
                 Inl (APIError ''Response validation failed'' (status resp))
               else if status resp \<ge> 400 then
                 Inl (APIError (statusText resp) (status resp))
               else Inr \<lparr>code = status resp, data = d\<rparr>))"

text \<open>\<open>runRawRequest\<close>: one transport call, recorded in \<open>calls\<close>, and its outcome.\<close>

definition runRawRequest :: "Env \<Rightarrow> Snapshot \<Rightarrow> APIRequest \<Rightarrow> World \<Rightarrow> (js_error + APIResponse) \<times> World" where
  "runRawRequest env snap options w =
     (let req = fetch_request options
      in (settle env snap options (fetch env (calls w) req), w\<lparr>calls := calls w @ [req]\<rparr>))"

section \<open>Token refresh coordinator: \<open>runTokenRequest\<close>\<close>

text \<open>Times are \<open>Date.now()\<close>, integer milliseconds, divided by 1000 exactly.\<close>

definition token_request :: "URLSearchParams \<Rightarrow> APIRequest" where
  "token_request creds =
     \<lparr>http_method = POST, url = ''/api/oauth2/token/'',
      headers = Some [(''Content-Type'', ''application/x-www-form-urlencoded'')],
      params = None, body = Some (params_toString creds),
      validate = Some isAPIAuthTokens, validateOptional = None, validateList = None\<rparr>"

text \<open>The storage setters serialise with \<open>String\<close>.\<close>

definition persist :: "Env \<Rightarrow> URLSearchParams \<Rightarrow> APIResponse \<Rightarrow> World \<Rightarrow> World" where
  "persist env creds resp w =
     (let a = js_String env (read_prop (data resp) ''access_token'');
          r = js_String env (read_prop (data resp) ''refresh_token'')
      in if params_get creds ''remember'' = Some ''true'' then
           w\<lparr>localStorage := (localStorage w)\<lparr>access_token := Some a, refresh_token := Some r\<rparr>\<rparr>
         else
           w\<lparr>sessionStorage := (sessionStorage w)\<lparr>access_token := Some a, refresh_token := Some r\<rparr>\<rparr>)"

text \<open>
  The re-read of the stored tokens:
  \<open>localStorage.getItem(k) || sessionStorage.getItem(k)\<close> for both keys.
\<close>

definition current_tokens :: "World \<Rightarrow> string option \<times> string option" where
  "current_tokens w =
     (js_or (access_token (localStorage w)) (access_token (sessionStorage w)),
      js_or (refresh_token (localStorage w)) (refresh_token (sessionStorage w)))"

text \<open>
  \<open>accessTokenData.exp > Date.now() / 1000\<close> for
  \<open>accessTokenData = decode_token(current_access_token)\<close>: \<open>Inl\<close> when the read of
  \<open>exp\<close> throws, which it does when the token decodes to \<open>null\<close>.
\<close>

definition still_valid :: "Env \<Rightarrow> int \<Rightarrow> string option \<Rightarrow> string + bool" where
  "still_valid env now current_access_token =
     (case get_prop (Some (decode_token env current_access_token)) ''exp'' of
        Inl k \<Rightarrow> Inl k
      | Inr v \<Rightarrow> Inr (js_gt (js_Number env v) (real_of_int now / 1000)))"

text \<open>The response made up from the re-read tokens when no call is needed.\<close>

definition stored_response :: "string option \<Rightarrow> string option \<Rightarrow> APIResponse" where
  "stored_response current_access_token current_refresh_token =
     \<lparr>code = 200,
      data = Some (JObj [(''access_token'', of_nullable current_access_token),
                         (''refresh_token'', of_nullable current_refresh_token),
                         (''token_type'', JStr ''bearer'')])\<rparr>"

text \<open>
  The body of \<open>mutex.runExclusive\<close>, run without interruption; \<open>now\<close> is the value of
  \<open>Date.now()\<close> read inside it. When the read of \<open>exp\<close> throws, or when the call fails,
  the body throws before the setters, after \<open>clear_tokens()\<close>.
\<close>

definition runTokenRequest :: "Env \<Rightarrow> int \<Rightarrow> URLSearchParams \<Rightarrow> Snapshot \<Rightarrow> World \<Rightarrow> (js_error + APIResponse) \<times> World" where
  "runTokenRequest env now creds snap w =
     (let (current_access_token, current_refresh_token) = current_tokens w;
          w1 = clear_tokens w
      in case still_valid env now current_access_token of
           Inl k \<Rightarrow> (Inl (TypeError (nullReadMessage env k)), w1)
         | Inr valid \<Rightarrow>
             let (resp, w2) =
                   (if valid then
                      (Inr (stored_response current_access_token current_refresh_token), w1)
                    else runRawRequest env snap (token_request creds) w1)
             in case resp of
                  Inl e \<Rightarrow> (Inl e, w2)
                | Inr r \<Rightarrow> (Inr r, persist env creds r w2))"

section \<open>Authenticated request facade: \<open>login\<close>, \<open>logout\<close>, \<open>request\<close>\<close>

definition login :: "Env \<Rightarrow> int \<Rightarrow> string \<Rightarrow> string \<Rightarrow> bool \<Rightarrow> Snapshot \<Rightarrow> World \<Rightarrow> (js_error + APIResponse) \<times> World" where
  "login env now user password remember snap w =
     runTokenRequest env now
       [(''username'', user), (''password'', password),
        (''remember'', if remember then ''true'' else ''false''),
        (''grant_type'', ''password'')] snap w"

definition logout_request :: "string \<Rightarrow> APIRequest" where
  "logout_request rt =
     \<lparr>http_method = POST, url = ''/api/oauth2/logout/'',
      headers = Some [(''Content-Type'', ''application/x-www-form-urlencoded'')],
      params = None,
      body = Some (params_toString [(''refresh_token'', rt), (''grant_type'', ''refresh_token'')]),
      validate = None, validateOptional = None, validateList = None\<rparr>"

text \<open>
  \<open>logout\<close>: \<open>await resp\<close> throws when the revoke call failed, and \<open>clear_tokens()\<close>,
  the statement after it, is then not reached.
\<close>

definition logout :: "Env \<Rightarrow> Snapshot \<Rightarrow> World \<Rightarrow> (js_error + APIResponse) \<times> World" where
  "logout env snap w =
     (let (resp, w1) =
            (if truthy (refreshToken snap) then
               runRawRequest env snap (logout_request (or_empty (refreshToken snap))) w
             else (Inr \<lparr>code = 204, data = None\<rparr>, w))
      in case resp of
           Inl e \<Rightarrow> (Inl e, w1)
         | Inr r \<Rightarrow> (Inr r, clear_tokens w1))"

text \<open>
  \<open>request\<close> assigns to \<open>options.headers\<close> of the caller's object, so the descriptor as the
  call leaves it is part of the result. \<open>now\<close> is the \<open>Date.now()\<close> of the expiry check,
  \<open>now'\<close> the one read later inside \<open>runTokenRequest\<close>. The expiry tested is the one of
  \<open>tokenData\<close>, the claims the render holds.
\<close>

definition default_headers :: "Env \<Rightarrow> Snapshot \<Rightarrow> Method \<Rightarrow> (string \<times> string) list" where
  "default_headers env snap m =
     (let h = [(''Authorization'', ''Bearer '' @ js_String env (map_option JStr (accessToken snap)))]
      in if m \<noteq> GET then AList.update ''Content-Type'' ''application/json'' h else h)"

definition refresh_creds :: "Snapshot \<Rightarrow> URLSearchParams" where
  "refresh_creds snap =
     [(''refresh_token'', or_empty (refreshToken snap)),
      (''remember'', if truthy (accessTokenLS snap) then ''true'' else ''false''),
      (''grant_type'', ''refresh_token'')]"

text \<open>
  \<open>tokenData.exp - 10 < Date.now() / 1000\<close>: \<open>Inl\<close> when the read of \<open>exp\<close> throws.
\<close>

definition expiring :: "Env \<Rightarrow> int \<Rightarrow> jsonval \<Rightarrow> string + bool" where
  "expiring env now td =
     (case get_prop (Some td) ''exp'' of
        Inl k \<Rightarrow> Inl k
      | Inr v \<Rightarrow> Inr (js_lt (js_minus (js_Number env v) 10) (real_of_int now / 1000)))"

text \<open>
  \<open>options.headers\<close> after \<open>if (!options.headers) { ... }\<close>: the caller's headers, or
  the ones made up for a caller that supplied none.
\<close>

definition request_headers :: "Env \<Rightarrow> Snapshot \<Rightarrow> APIRequest \<Rightarrow> (string \<times> string) list" where
  "request_headers env snap options =
     (case headers options of
        None \<Rightarrow> default_headers env snap (http_method options)
      | Some h \<Rightarrow> h)"

definition request :: "Env \<Rightarrow> int \<Rightarrow> int \<Rightarrow> APIRequest \<Rightarrow> Snapshot \<Rightarrow> World \<Rightarrow> (js_error + APIResponse) \<times> APIRequest \<times> World" where
  "request env now now' options snap w =
     (if \<not> truthy (accessToken snap) then
        (Inl (APIError ''Missing access token'' 401), options, w)
      else
        let hdrs = request_headers env snap options;
            options1 = options\<lparr>headers := Some hdrs\<rparr>
        in case expiring env now (tokenData snap) of
             Inl k \<Rightarrow> (Inl (TypeError (nullReadMessage env k)), options1, w)
           | Inr soon \<Rightarrow>
               if soon \<and> truthy (refreshToken snap) then
                 (case runTokenRequest env now' (refresh_creds snap) snap w of
                    (Inl e, w1) \<Rightarrow> (Inl e, options1, w1)
                  | (Inr tokResp, w1) \<Rightarrow>
                      let options2 = options1\<lparr>headers := Some (AList.update ''Authorization''
                            (''Bearer '' @ js_String env (read_prop (data tokResp) ''access_token''))
                            hdrs)\<rparr>;
                          (r, w2) = runRawRequest env snap options2 w1
                      in (r, options2, w2))
               else
                 let (r, w1) = runRawRequest env snap options1 w
                 in (r, options1, w1))"

section \<open>Concurrent token requests\<close>

text \<open>
  Several calls of \<open>runTokenRequest\<close> in flight at once, as the cooperative scheduler runs
  them: the body of \<open>mutex.runExclusive\<close> is entered when the mutex is free and runs
  without interruption up to its \<open>await\<close>, where the caller is suspended; it resumes
  with the settled promise, runs to the end of the body and releases the mutex (also
  when the body throws). The mutex is the one of the async-mutex library, taken by its
  contract. A caller is
  \<^item> \<open>Waiting\<close> before it has entered the body;
  \<^item> \<open>Raised e\<close> inside the body, which has thrown \<open>e\<close> at the read of \<open>exp\<close>;
  \<^item> \<open>Stored r\<close> inside the body, suspended with the response \<open>r\<close> it made up from the
    re-read tokens;
  \<^item> \<open>InFlight res\<close> inside the body, suspended on its call of the token endpoint, which
    will settle as \<open>res\<close>;
  \<^item> \<open>Finished x\<close> after the body, with the result or the error of \<open>runTokenRequest\<close>.
\<close>

datatype flow_state =
    Waiting
  | Raised js_error
  | Stored APIResponse
  | InFlight FetchResult
  | Finished "js_error + APIResponse"

text \<open>
  Besides the storage, the clock and the callers, the state keeps who holds the mutex
  and, for the statements below, who made each call of the token endpoint, oldest first.
\<close>

record System =
  world :: World
  clock :: int
  holder :: "nat option"
  flows :: "nat \<Rightarrow> flow_state"
  callers :: "nat list"


text \<open>
  Caller \<open>i\<close> runs with the credentials \<open>fst (procs i)\<close>, in a render \<open>snd (procs i)\<close>
  of the hook; \<open>token_call procs i\<close> is the call it makes when it makes one.
\<close>

definition token_call :: "(nat \<Rightarrow> URLSearchParams \<times> Snapshot) \<Rightarrow> nat \<Rightarrow> FetchRequest" where
  "token_call procs i = fetch_request (token_request (fst (procs i)))"

text \<open>
  \<open>enter\<close> is the body up to the \<open>await\<close>: the re-read, \<open>clear_tokens\<close>, the test of the
  expiry against the clock and, when the token is not valid, the call.
\<close>

definition enter :: "Env \<Rightarrow> (nat \<Rightarrow> URLSearchParams \<times> Snapshot) \<Rightarrow> nat \<Rightarrow> System \<Rightarrow> System" where
  "enter env procs i s =
     (let (current_access_token, current_refresh_token) = current_tokens (world s);
          w1 = clear_tokens (world s)
      in case still_valid env (clock s) current_access_token of
           Inl k \<Rightarrow>
             s\<lparr>world := w1, holder := Some i,
               flows := (flows s)(i := Raised (TypeError (nullReadMessage env k)))\<rparr>
         | Inr valid \<Rightarrow>
             if valid then
               s\<lparr>world := w1, holder := Some i,
                 flows := (flows s)(i := Stored (stored_response current_access_token
                                                   current_refresh_token))\<rparr>
             else
               s\<lparr>world := w1\<lparr>calls := calls w1 @ [token_call procs i]\<rparr>, holder := Some i,
                 flows := (flows s)(i := InFlight (fetch env (calls w1) (token_call procs i))),
                 callers := callers s @ [i]\<rparr>)"

text \<open>\<open>leave\<close> is the rest of the body, from the settled promise to the release of the mutex.\<close>

definition leave :: "Env \<Rightarrow> (nat \<Rightarrow> URLSearchParams \<times> Snapshot) \<Rightarrow> nat \<Rightarrow> System \<Rightarrow> System" where
  "leave env procs i s =
     (case (case flows s i of
              Raised e \<Rightarrow> Some (Inl e)
            | Stored r \<Rightarrow> Some (Inr r)
            | InFlight res \<Rightarrow> Some (settle env (snd (procs i)) (token_request (fst (procs i))) res)
            | _ \<Rightarrow> None) of
        None \<Rightarrow> s
      | Some (Inl e) \<Rightarrow> s\<lparr>holder := None, flows := (flows s)(i := Finished (Inl e))\<rparr>
      | Some (Inr r) \<Rightarrow>
          s\<lparr>world := persist env (fst (procs i)) r (world s), holder := None,
            flows := (flows s)(i := Finished (Inr r))\<rparr>)"









section \<open>The storage invariant\<close>

text \<open>A scope that holds neither token, and a storage in which at most one scope holds any.\<close>

definition scope_empty :: "Storage \<Rightarrow> bool" where
  "scope_empty s = (access_token s = None \<and> refresh_token s = None)"

definition at_most_one_scope :: "World \<Rightarrow> bool" where
  "at_most_one_scope w = (scope_empty (localStorage w) \<or> scope_empty (sessionStorage w))"

section \<open>An example environment\<close>

text \<open>
  A transport and a token decoder to run the hook on: the token \<open>old\<close> expires at second
  110, the token \<open>new\<close> at second 1000; the string \<open>h.bnVsbA.s\<close>, whose second segment
  is the base64 of \<open>null\<close>, decodes to \<open>null\<close>, as it does with jwt-decode; every other
  string is rejected by the decoder; the token
  endpoint issues the pair \<open>new\<close>/\<open>r2\<close>, \<open>/missing\<close> answers 404 without a
  \<open>detail\<close>, \<open>/forbidden\<close> answers 403 with one, \<open>/unauthorized\<close> answers 401 with an
  empty body (as the tests do), \<open>/teapot\<close> answers 418 flagged
  \<open>ok\<close> (as the test double does), the logout endpoint and \<open>/down\<close> are unreachable.
\<close>

definition demo_claims :: "string \<Rightarrow> jsonval option" where
  "demo_claims s =
     (if s = ''old'' then
        Some (JObj [(''sub'', JStr ''joe''), (''iat'', JNum 0), (''exp'', JNum 110),
                    (''api'', JStr ''rw'')])
      else if s = ''new'' then
        Some (JObj [(''sub'', JStr ''joe''), (''iat'', JNum 100), (''exp'', JNum 1000),
                    (''api'', JStr ''rw'')])
      else if s = ''h.bnVsbA.s'' then Some JNull
      else None)"

definition demo_pair :: jsonval where
  "demo_pair = JObj [(''access_token'', JStr ''new''), (''refresh_token'', JStr ''r2''),
                     (''token_type'', JStr ''bearer'')]"

definition demo_fetch :: "FetchRequest list \<Rightarrow> FetchRequest \<Rightarrow> FetchResult" where
  "demo_fetch h req =
     (if req_url req = ''/api/oauth2/token/'' then
        Resolved \<lparr>status = 200, ok = True, statusText = ''OK'', json = Inr demo_pair\<rparr>
      else if req_url req = ''/missing'' then
        Resolved \<lparr>status = 404, ok = False, statusText = ''Not Found'', json = Inr (JObj [])\<rparr>
      else if req_url req = ''/forbidden'' then
        Resolved \<lparr>status = 403, ok = False, statusText = ''Forbidden'',
                  json = Inr (JObj [(''detail'', JStr ''No entry'')])\<rparr>
      else if req_url req = ''/unauthorized'' then
        Resolved \<lparr>status = 401, ok = False, statusText = ''Unauthorized'',
                  json = Inl ''Unexpected end of JSON input''\<rparr>
      else if req_url req = ''/teapot'' then
        Resolved \<lparr>status = 418, ok = True, statusText = ''I am a teapot'',
                  json = Inr (JObj [(''detail'', JStr ''short and stout'')])\<rparr>
      else if req_url req = ''/down'' \<or> req_url req = ''/api/oauth2/logout/'' then
        Rejected ''Failed to fetch''
      else
        Resolved \<lparr>status = 200, ok = True, statusText = ''OK'',
                  json = Inr (JObj [(''hello'', JStr ''world'')])\<rparr>)"

definition demo_env :: Env where
  "demo_env = \<lparr>fetch = demo_fetch, jwtDecode = demo_claims,
               ToString = (\<lambda>j. ''[object Object]''), ToNumber = (\<lambda>j. NaN),
               nullReadMessage = (\<lambda>k. ''Cannot read properties of null'')\<rparr>"

text \<open>A storage whose durable scope holds the access token \<open>tok\<close> and the refresh token \<open>r1\<close>.\<close>

definition demo_world :: "string \<Rightarrow> World" where
  "demo_world tok =
     \<lparr>localStorage = \<lparr>access_token = Some tok, refresh_token = Some ''r1''\<rparr>,
      sessionStorage = \<lparr>access_token = None, refresh_token = None\<rparr>,
      calls = []\<rparr>"

text \<open>A storage whose two scopes both hold the pair \<open>old\<close>/\<open>r1\<close>.\<close>

definition demo_both :: World where
  "demo_both =
     \<lparr>localStorage = \<lparr>access_token = Some ''old'', refresh_token = Some ''r1''\<rparr>,
      sessionStorage = \<lparr>access_token = Some ''old'', refresh_token = Some ''r1''\<rparr>,
      calls = []\<rparr>"

definition demo_get :: "string \<Rightarrow> APIRequest" where
  "demo_get u = \<lparr>http_method = GET, url = u, headers = None, params = None, body = None,
                 validate = None, validateOptional = None, validateList = None\<rparr>"





lemmas demo_defs =
  demo_claims_def demo_pair_def demo_fetch_def demo_env_def demo_world_def demo_get_def
  demo_both_def

lemmas value_defs =
  truthy_def js_or_def or_empty_def of_nullable_def get_prop_def read_prop_def js_String_def
  js_Number_def js_gt_def js_lt_def js_minus_def

lemmas codec_defs = decode_try_def decode_token_outcome_def decode_token_def no_claims_def

lemmas run_defs =
  value_defs codec_defs params_get_def is_string_def isAPIAuthTokens_def accessToken_def
  refreshToken_def useAPI_def clear_tokens_def detail_message_def response_data_def
  validation_fails_def fetch_request_def settle_def runRawRequest_def token_request_def
  persist_def current_tokens_def still_valid_def stored_response_def runTokenRequest_def
  login_def logout_request_def logout_def default_headers_def refresh_creds_def
  request_headers_def expiring_def request_def first_render_def

section \<open>Token codec\<close>

text \<open>
  C9 (amended). \<open>decode_token\<close> never throws: for every decoder and every input, a
  string or an absent value, it returns. For an absent (or empty) token and for a token
  the decoder rejects (throws on) it returns exactly the zero claims. What the decoder
  returns for a string it accepts is returned as it is, whatever value that is. It
  reads nothing but its argument and the decoder and writes nothing: it is a function
  of these alone.
\<close>

theorem decode_token_total:
  "\<exists>d. decode_token_outcome env token = Returned d \<and> decode_token env token = d
       \<and> (\<not> truthy token \<or> jwtDecode env (or_empty token) = None \<longrightarrow> d = no_claims)
       \<and> (\<forall>v. truthy token \<and> jwtDecode env (or_empty token) = Some v \<longrightarrow> d = v)"
  by (auto simp: decode_try_def decode_token_outcome_def decode_token_def split: option.splits)

theorem decode_token_total_witness:
  "decode_token_outcome demo_env (Some ''not a token'') = Returned no_claims
   \<and> decode_token_outcome demo_env None = Returned no_claims
   \<and> decode_token_outcome demo_env (Some ''old'')
       = Returned (JObj [(''sub'', JStr ''joe''), (''iat'', JNum 0), (''exp'', JNum 110),
                         (''api'', JStr ''rw'')])"
proof -
  have m: "jwtDecode demo_env (or_empty (Some ''not a token'')) = None"
    by (simp add: demo_env_def demo_claims_def or_empty_def js_or_def truthy_def)
  have a: "\<not> truthy None"
    by (simp add: truthy_def)
  have t: "truthy (Some ''old'')"
    by (simp add: truthy_def)
  have o: "jwtDecode demo_env (or_empty (Some ''old'')) =
      Some (JObj [(''sub'', JStr ''joe''), (''iat'', JNum 0), (''exp'', JNum 110),
                  (''api'', JStr ''rw'')])"
    by (simp add: demo_env_def demo_claims_def or_empty_def js_or_def truthy_def)
  from decode_token_total [of demo_env "Some ''not a token''"] m
    decode_token_total [of demo_env None] a
    decode_token_total [of demo_env "Some ''old''"] t o
  show ?thesis by auto
qed

text \<open>
  The claim as the specification states it fails: the string \<open>h.bnVsbA.s\<close> is not a
  token, yet the decoder does not throw on it (its payload parses, to \<open>null\<close>), and
  \<open>decode_token\<close> returns that \<open>null\<close>, not the zero claims.
\<close>

theorem decode_token_total_counterexample:
  "jwtDecode demo_env ''h.bnVsbA.s'' = Some JNull
   \<and> decode_token_outcome demo_env (Some ''h.bnVsbA.s'') = Returned JNull
   \<and> JNull \<noteq> no_claims"
  by (simp add: codec_defs value_defs demo_env_def demo_claims_def)

section \<open>Token refresh coordinator\<close>

lemma calls_clear_tokens: "calls (clear_tokens w) = calls w"
  by (simp add: clear_tokens_def)

lemma calls_persist: "calls (persist env creds r w) = calls w"
  by (simp add: persist_def Let_def)

lemma storage_clear_tokens:
  "localStorage (clear_tokens w) = \<lparr>access_token = None, refresh_token = None\<rparr>"
  "sessionStorage (clear_tokens w) = \<lparr>access_token = None, refresh_token = None\<rparr>"
  by (simp_all add: clear_tokens_def)

lemma storage_runRawRequest:
  "localStorage (snd (runRawRequest env snap options w)) = localStorage w"
  "sessionStorage (snd (runRawRequest env snap options w)) = sessionStorage w"
  by (simp_all add: runRawRequest_def Let_def)

lemma fetch_request_token:
  "fetch_request (token_request creds) =
     Fetch ''/api/oauth2/token/'' POST
       (Some [(''Content-Type'', ''application/x-www-form-urlencoded'')])
       (Some (params_toString creds))"
  by (simp add: fetch_request_def token_request_def)

text \<open>The three ways the body of \<open>runTokenRequest\<close> goes.\<close>

lemma runTokenRequest_raised:
  assumes "still_valid env now (fst (current_tokens w)) = Inl k"
  shows "runTokenRequest env now creds snap w =
           (Inl (TypeError (nullReadMessage env k)), clear_tokens w)"
  using assms by (cases "current_tokens w") (simp add: runTokenRequest_def)

lemma runTokenRequest_stored:
  assumes "still_valid env now (fst (current_tokens w)) = Inr True"
  shows "runTokenRequest env now creds snap w =
           (Inr (stored_response (fst (current_tokens w)) (snd (current_tokens w))),
            persist env creds (stored_response (fst (current_tokens w)) (snd (current_tokens w)))
              (clear_tokens w))"
  using assms by (cases "current_tokens w") (simp add: runTokenRequest_def)

lemma runTokenRequest_call:
  assumes "still_valid env now (fst (current_tokens w)) = Inr False"
  shows "runTokenRequest env now creds snap w =
           (case fst (runRawRequest env snap (token_request creds) (clear_tokens w)) of
              Inl e \<Rightarrow> (Inl e, snd (runRawRequest env snap (token_request creds) (clear_tokens w)))
            | Inr r \<Rightarrow> (Inr r, persist env creds r
                         (snd (runRawRequest env snap (token_request creds) (clear_tokens w)))))"
  using assms
  by (cases "current_tokens w"; cases "runRawRequest env snap (token_request creds) (clear_tokens w)")
    (simp add: runTokenRequest_def split: sum.splits)

lemma still_valid_cases:
  obtains (raised) k where "still_valid env now a = Inl k"
  | (stored) "still_valid env now a = Inr True"
  | (call) "still_valid env now a = Inr False"
  by (cases "still_valid env now a") auto

text \<open>The read of \<open>exp\<close> throws for the claims \<open>null\<close> only.\<close>

lemma still_valid_raised_iff:
  "(\<exists>k. still_valid env now a = Inl k) \<longleftrightarrow> decode_token env a = JNull"
  by (cases "decode_token env a")
    (simp_all add: still_valid_def get_prop_def split: sum.splits)

lemma calls_runRawRequest:
  "calls (snd (runRawRequest env snap options w)) = calls w @ [fetch_request options]"
  by (simp add: runRawRequest_def Let_def)

lemma fst_runRawRequest:
  "fst (runRawRequest env snap options w) =
     settle env snap options (fetch env (calls w) (fetch_request options))"
  by (simp add: runRawRequest_def Let_def)

lemma calls_runTokenRequest:
  "calls (snd (runTokenRequest env now creds snap w)) =
     (if still_valid env now (fst (current_tokens w)) = Inr False then
        calls w @ [Fetch ''/api/oauth2/token/'' POST
                     (Some [(''Content-Type'', ''application/x-www-form-urlencoded'')])
                     (Some (params_toString creds))]
      else calls w)"
  by (cases rule: still_valid_cases [of env now "fst (current_tokens w)"])
    (simp_all add: runTokenRequest_raised runTokenRequest_stored runTokenRequest_call
      calls_persist calls_clear_tokens calls_runRawRequest fetch_request_token
      split: sum.splits)

lemma settle_validated:
  assumes "settle env snap options res = Inr r" and "validate options = Some f"
  shows "f (data r)"
  using assms
  by (auto simp: settle_def validation_fails_def split: FetchResult.splits sum.splits if_splits)

text \<open>What the token request makes of a response with a parsed body that is flagged \<open>ok\<close>.\<close>

lemma settle_token_response:
  assumes "status resp \<noteq> 204" "json resp = Inr d" "ok resp"
  shows "settle env snap (token_request creds) (Resolved resp) =
           (if \<not> isAPIAuthTokens (Some d) then
              Inl (APIError ''Response validation failed'' (status resp))
            else if status resp \<ge> 400 then Inl (APIError (statusText resp) (status resp))
            else Inr \<lparr>code = status resp, data = Some d\<rparr>)"
  using assms
  by (simp add: settle_def response_data_def validation_fails_def token_request_def)

lemma read_prop_stored_response:
  "read_prop (data (stored_response a r)) ''access_token'' = Some (of_nullable a)"
  "read_prop (data (stored_response a r)) ''refresh_token'' = Some (of_nullable r)"
  by (simp_all add: stored_response_def read_prop_def get_prop_def)

lemma is_string_iff: "is_string v \<longleftrightarrow> (\<exists>s. v = Some (JStr s))"
  by (auto simp: is_string_def split: option.splits jsonval.splits)

lemma isAPIAuthTokens_strings:
  assumes "isAPIAuthTokens v"
  shows "\<exists>a r. read_prop v ''access_token'' = Some (JStr a)
             \<and> read_prop v ''refresh_token'' = Some (JStr r)"
  using assms
  by (auto simp: isAPIAuthTokens_def read_prop_def is_string_iff split: sum.splits)

lemma js_String_of_nullable:
  "js_String env (Some (of_nullable a)) = (case a of None \<Rightarrow> ''null'' | Some s \<Rightarrow> s)"
  by (simp add: js_String_def of_nullable_def split: option.splits)

text \<open>The tokens of a successful result, as nullable strings, and the world it leaves.\<close>

lemma runTokenRequest_success:
  assumes "fst (runTokenRequest env now creds snap w) = Inr r"
  shows "\<exists>a rt w2.
           read_prop (data r) ''access_token'' = Some (of_nullable a)
         \<and> read_prop (data r) ''refresh_token'' = Some (of_nullable rt)
         \<and> (still_valid env now (fst (current_tokens w)) = Inr False \<longrightarrow> a \<noteq> None \<and> rt \<noteq> None)
         \<and> (still_valid env now (fst (current_tokens w)) = Inr True \<longrightarrow> (a, rt) = current_tokens w)
         \<and> localStorage w2 = \<lparr>access_token = None, refresh_token = None\<rparr>
         \<and> sessionStorage w2 = \<lparr>access_token = None, refresh_token = None\<rparr>
         \<and> snd (runTokenRequest env now creds snap w) = persist env creds r w2"
proof (cases rule: still_valid_cases [of env now "fst (current_tokens w)"])
  case (raised k)
  with assms show ?thesis
    by (simp add: runTokenRequest_raised)
next
  case stored
  from assms have r: "r = stored_response (fst (current_tokens w)) (snd (current_tokens w))"
    by (simp add: runTokenRequest_stored [OF stored])
  show ?thesis
    apply (rule exI [of _ "fst (current_tokens w)"])
    apply (rule exI [of _ "snd (current_tokens w)"])
    apply (rule exI [of _ "clear_tokens w"])
    apply (simp add: r stored read_prop_stored_response storage_clear_tokens
        runTokenRequest_stored [OF stored])
    done
next
  case call
  let ?raw = "runRawRequest env snap (token_request creds) (clear_tokens w)"
  from assms have f: "fst ?raw = Inr r"
    by (simp add: runTokenRequest_call [OF call] split: sum.splits)
  then have "settle env snap (token_request creds)
      (fetch env (calls (clear_tokens w)) (fetch_request (token_request creds))) = Inr r"
    by (simp add: fst_runRawRequest)
  then have "isAPIAuthTokens (data r)"
    by (rule settle_validated) (simp add: token_request_def)
  then obtain a rt where art: "read_prop (data r) ''access_token'' = Some (JStr a)"
      "read_prop (data r) ''refresh_token'' = Some (JStr rt)"
    using isAPIAuthTokens_strings by blast
  show ?thesis
    apply (rule exI [of _ "Some a"])
    apply (rule exI [of _ "Some rt"])
    apply (rule exI [of _ "snd ?raw"])
    apply (simp add: art call of_nullable_def storage_runRawRequest storage_clear_tokens
        runTokenRequest_call [OF call] f)
    done
qed

lemma persist_cleared:
  assumes "localStorage w = \<lparr>access_token = None, refresh_token = None\<rparr>"
      and "sessionStorage w = \<lparr>access_token = None, refresh_token = None\<rparr>"
  shows "params_get creds ''remember'' = Some ''true'' \<Longrightarrow>
           localStorage (persist env creds r w) =
             \<lparr>access_token = Some (js_String env (read_prop (data r) ''access_token'')),
              refresh_token = Some (js_String env (read_prop (data r) ''refresh_token''))\<rparr>
           \<and> sessionStorage (persist env creds r w) = \<lparr>access_token = None, refresh_token = None\<rparr>"
    and "params_get creds ''remember'' \<noteq> Some ''true'' \<Longrightarrow>
           sessionStorage (persist env creds r w) =
             \<lparr>access_token = Some (js_String env (read_prop (data r) ''access_token'')),
              refresh_token = Some (js_String env (read_prop (data r) ''refresh_token''))\<rparr>
           \<and> localStorage (persist env creds r w) = \<lparr>access_token = None, refresh_token = None\<rparr>"
  using assms by (simp_all add: persist_def Let_def)

text \<open>Where a successful \<open>runTokenRequest\<close> leaves the pair.\<close>

lemma runTokenRequest_persists:
  assumes "fst (runTokenRequest env now creds snap w) = Inr r"
  shows "\<exists>a rt.
           read_prop (data r) ''access_token'' = Some (of_nullable a)
         \<and> read_prop (data r) ''refresh_token'' = Some (of_nullable rt)
         \<and> (still_valid env now (fst (current_tokens w)) = Inr False \<longrightarrow> a \<noteq> None \<and> rt \<noteq> None)
         \<and> (params_get creds ''remember'' = Some ''true'' \<longrightarrow>
              localStorage (snd (runTokenRequest env now creds snap w)) =
                \<lparr>access_token = Some (case a of None \<Rightarrow> ''null'' | Some s \<Rightarrow> s),
                 refresh_token = Some (case rt of None \<Rightarrow> ''null'' | Some s \<Rightarrow> s)\<rparr>
              \<and> sessionStorage (snd (runTokenRequest env now creds snap w)) =
                \<lparr>access_token = None, refresh_token = None\<rparr>)
         \<and> (params_get creds ''remember'' \<noteq> Some ''true'' \<longrightarrow>
              sessionStorage (snd (runTokenRequest env now creds snap w)) =
                \<lparr>access_token = Some (case a of None \<Rightarrow> ''null'' | Some s \<Rightarrow> s),
                 refresh_token = Some (case rt of None \<Rightarrow> ''null'' | Some s \<Rightarrow> s)\<rparr>
              \<and> localStorage (snd (runTokenRequest env now creds snap w)) =
                \<lparr>access_token = None, refresh_token = None\<rparr>)"
proof -
  from runTokenRequest_success [OF assms] obtain a rt w2 where
    a: "read_prop (data r) ''access_token'' = Some (of_nullable a)" and
    rt: "read_prop (data r) ''refresh_token'' = Some (of_nullable rt)" and
    n: "still_valid env now (fst (current_tokens w)) = Inr False \<longrightarrow> a \<noteq> None \<and> rt \<noteq> None" and
    l: "localStorage w2 = \<lparr>access_token = None, refresh_token = None\<rparr>" and
    s: "sessionStorage w2 = \<lparr>access_token = None, refresh_token = None\<rparr>" and
    w: "snd (runTokenRequest env now creds snap w) = persist env creds r w2"
    by blast
  show ?thesis
    apply (rule exI [of _ a])
    apply (rule exI [of _ rt])
    using n persist_cleared [OF l s, of creds env r]
    apply (simp add: a rt w js_String_of_nullable)
    done
qed

text \<open>
  C3 (amended). Inside the coordinator, after the re-read of the stored tokens and the
  clearing of the storage:
  \<^item> when the expiry of the claims the re-read access token decodes to is strictly
    greater than the current time, no call is made and the re-read pair is returned
    with code 200;
  \<^item> when the token decodes to \<open>null\<close>, and only then, the read of the expiry throws a
    \<open>TypeError\<close>: no call is made and the storage stays cleared;
  \<^item> otherwise exactly one call is made, a POST to \<open>/api/oauth2/token/\<close> with
    \<open>Content-Type: application/x-www-form-urlencoded\<close> and the URL-encoded credentials
    as its body, and its response is validated with \<open>isAPIAuthTokens\<close>: a successful
    result satisfies the predicate; of the responses with a parsed body that are
    flagged \<open>ok\<close>, one that satisfies the predicate is returned with its status (an
    error status raising the status text), and one that does not is refused with
    \<open>Response validation failed\<close>.
\<close>

theorem runTokenRequest_stored_or_one_post:
  "(still_valid env now (fst (current_tokens w)) = Inr True \<longrightarrow>
      fst (runTokenRequest env now creds snap w) =
        Inr \<lparr>code = 200,
             data = Some (JObj [(''access_token'', of_nullable (fst (current_tokens w))),
                                (''refresh_token'', of_nullable (snd (current_tokens w))),
                                (''token_type'', JStr ''bearer'')])\<rparr>
      \<and> calls (snd (runTokenRequest env now creds snap w)) = calls w)
   \<and> (\<forall>k. still_valid env now (fst (current_tokens w)) = Inl k \<longrightarrow>
      decode_token env (fst (current_tokens w)) = JNull
      \<and> runTokenRequest env now creds snap w =
          (Inl (TypeError (nullReadMessage env k)), clear_tokens w)
      \<and> calls (clear_tokens w) = calls w)
   \<and> (decode_token env (fst (current_tokens w)) = JNull \<longrightarrow>
        (\<exists>k. still_valid env now (fst (current_tokens w)) = Inl k))
   \<and> (still_valid env now (fst (current_tokens w)) = Inr False \<longrightarrow>
      calls (snd (runTokenRequest env now creds snap w)) =
        calls w @ [Fetch ''/api/oauth2/token/'' POST
                     (Some [(''Content-Type'', ''application/x-www-form-urlencoded'')])
                     (Some (params_toString creds))]
      \<and> (\<forall>r. fst (runTokenRequest env now creds snap w) = Inr r \<longrightarrow> isAPIAuthTokens (data r))
      \<and> (\<forall>resp d.
            fetch env (calls w) (Fetch ''/api/oauth2/token/'' POST
                     (Some [(''Content-Type'', ''application/x-www-form-urlencoded'')])
                     (Some (params_toString creds))) = Resolved resp
            \<and> status resp \<noteq> 204 \<and> json resp = Inr d \<and> ok resp
            \<longrightarrow> fst (runTokenRequest env now creds snap w) =
                  (if \<not> isAPIAuthTokens (Some d) then
                     Inl (APIError ''Response validation failed'' (status resp))
                   else if status resp \<ge> 400 then
                     Inl (APIError (statusText resp) (status resp))
                   else Inr \<lparr>code = status resp, data = Some d\<rparr>)))"
proof (intro conjI impI allI)
  assume v: "still_valid env now (fst (current_tokens w)) = Inr True"
  show "fst (runTokenRequest env now creds snap w) =
        Inr \<lparr>code = 200,
             data = Some (JObj [(''access_token'', of_nullable (fst (current_tokens w))),
                                (''refresh_token'', of_nullable (snd (current_tokens w))),
                                (''token_type'', JStr ''bearer'')])\<rparr>"
    by (simp add: runTokenRequest_stored [OF v] stored_response_def)
  show "calls (snd (runTokenRequest env now creds snap w)) = calls w"
    by (simp add: calls_runTokenRequest v)
next
  fix k
  assume t: "still_valid env now (fst (current_tokens w)) = Inl k"
  then show "decode_token env (fst (current_tokens w)) = JNull"
    using still_valid_raised_iff [of env now "fst (current_tokens w)"] by blast
  from t show "runTokenRequest env now creds snap w =
          (Inl (TypeError (nullReadMessage env k)), clear_tokens w)"
    by (rule runTokenRequest_raised)
  show "calls (clear_tokens w) = calls w"
    by (rule calls_clear_tokens)
next
  assume "decode_token env (fst (current_tokens w)) = JNull"
  then show "\<exists>k. still_valid env now (fst (current_tokens w)) = Inl k"
    using still_valid_raised_iff [of env now "fst (current_tokens w)"] by blast
next
  assume n: "still_valid env now (fst (current_tokens w)) = Inr False"
  show "calls (snd (runTokenRequest env now creds snap w)) =
        calls w @ [Fetch ''/api/oauth2/token/'' POST
                     (Some [(''Content-Type'', ''application/x-www-form-urlencoded'')])
                     (Some (params_toString creds))]"
    by (simp add: calls_runTokenRequest n)
next
  fix r
  assume n: "still_valid env now (fst (current_tokens w)) = Inr False"
    and r: "fst (runTokenRequest env now creds snap w) = Inr r"
  from r have "settle env snap (token_request creds)
      (fetch env (calls (clear_tokens w)) (fetch_request (token_request creds))) = Inr r"
    by (simp add: runTokenRequest_call [OF n] fst_runRawRequest split: sum.splits)
  then show "isAPIAuthTokens (data r)"
    by (rule settle_validated) (simp add: token_request_def)
next
  fix resp d
  assume n: "still_valid env now (fst (current_tokens w)) = Inr False"
    and h: "fetch env (calls w) (Fetch ''/api/oauth2/token/'' POST
                     (Some [(''Content-Type'', ''application/x-www-form-urlencoded'')])
                     (Some (params_toString creds))) = Resolved resp
            \<and> status resp \<noteq> 204 \<and> json resp = Inr d \<and> ok resp"
  then have s: "settle env snap (token_request creds) (Resolved resp) =
           (if \<not> isAPIAuthTokens (Some d) then
              Inl (APIError ''Response validation failed'' (status resp))
            else if status resp \<ge> 400 then Inl (APIError (statusText resp) (status resp))
            else Inr \<lparr>code = status resp, data = Some d\<rparr>)"
    by (intro settle_token_response) simp_all
  have "fst (runTokenRequest env now creds snap w) =
      settle env snap (token_request creds) (Resolved resp)"
    using h by (simp add: runTokenRequest_call [OF n] fst_runRawRequest calls_clear_tokens
        fetch_request_token split: sum.splits)
  with s show "fst (runTokenRequest env now creds snap w) =
                  (if \<not> isAPIAuthTokens (Some d) then
                     Inl (APIError ''Response validation failed'' (status resp))
                   else if status resp \<ge> 400 then
                     Inl (APIError (statusText resp) (status resp))
                   else Inr \<lparr>code = status resp, data = Some d\<rparr>)"
    by simp
qed

theorem runTokenRequest_stored_or_one_post_witness:
  "still_valid demo_env 50000 (fst (current_tokens (demo_world ''old''))) = Inr True
   \<and> fst (runTokenRequest demo_env 50000 [(''remember'', ''false'')]
            (useAPI demo_env (demo_world ''old'')) (demo_world ''old'')) =
        Inr \<lparr>code = 200,
             data = Some (JObj [(''access_token'', JStr ''old''), (''refresh_token'', JStr ''r1''),
                                (''token_type'', JStr ''bearer'')])\<rparr>
   \<and> calls (snd (runTokenRequest demo_env 50000 [(''remember'', ''false'')]
            (useAPI demo_env (demo_world ''old'')) (demo_world ''old''))) = []
   \<and> still_valid demo_env 200000 (fst (current_tokens (demo_world ''old''))) = Inr False
   \<and> calls (snd (runTokenRequest demo_env 200000 [(''remember'', ''false'')]
            (useAPI demo_env (demo_world ''old'')) (demo_world ''old''))) =
        [Fetch ''/api/oauth2/token/'' POST
           (Some [(''Content-Type'', ''application/x-www-form-urlencoded'')])
           (Some ''remember=false'')]
   \<and> isAPIAuthTokens (Some demo_pair)
   \<and> fst (runTokenRequest demo_env 200000 [(''remember'', ''false'')]
            (useAPI demo_env (demo_world ''old'')) (demo_world ''old'')) =
        Inr \<lparr>code = 200, data = Some demo_pair\<rparr>
   \<and> \<not> isAPIAuthTokens (Some (JObj [(''access_token'', JStr ''new'')]))
   \<and> fst (runTokenRequest
            (demo_env\<lparr>fetch := (\<lambda>h req. Resolved \<lparr>status = 200, ok = True, statusText = ''OK'',
                          json = Inr (JObj [(''access_token'', JStr ''new'')])\<rparr>)\<rparr>)
            200000 [(''remember'', ''false'')]
            (useAPI demo_env (demo_world ''old'')) (demo_world ''old'')) =
        Inl (APIError ''Response validation failed'' 200)
   \<and> decode_token demo_env (fst (current_tokens (demo_world ''h.bnVsbA.s''))) = JNull
   \<and> runTokenRequest demo_env 200000 [(''remember'', ''false'')]
        (first_render (demo_world ''h.bnVsbA.s'')) (demo_world ''h.bnVsbA.s'') =
        (Inl (TypeError ''Cannot read properties of null''),
         \<lparr>localStorage = \<lparr>access_token = None, refresh_token = None\<rparr>,
          sessionStorage = \<lparr>access_token = None, refresh_token = None\<rparr>,
          calls = []\<rparr>)"
proof -
  let ?creds = "[(''remember'', ''false'')]"
  let ?snap = "useAPI demo_env (demo_world ''old'')"
  let ?bad = "demo_env\<lparr>fetch := (\<lambda>h req. Resolved \<lparr>status = 200, ok = True,
                 statusText = ''OK'', json = Inr (JObj [(''access_token'', JStr ''new'')])\<rparr>)\<rparr>"
  have t: "current_tokens (demo_world ''old'') = (Some ''old'', Some ''r1'')"
    by (simp add: current_tokens_def demo_world_def js_or_def truthy_def)
  have tn: "current_tokens (demo_world ''h.bnVsbA.s'') = (Some ''h.bnVsbA.s'', Some ''r1'')"
    by (simp add: current_tokens_def demo_world_def js_or_def truthy_def)
  have v: "still_valid demo_env 50000 (Some ''old'') = Inr True"
    by (simp add: still_valid_def codec_defs value_defs demo_env_def demo_claims_def)
  have n: "still_valid demo_env 200000 (Some ''old'') = Inr False"
    by (simp add: still_valid_def codec_defs value_defs demo_env_def demo_claims_def)
  have nb: "still_valid ?bad 200000 (Some ''old'') = Inr False"
    by (simp add: still_valid_def codec_defs value_defs demo_env_def demo_claims_def)
  have k: "still_valid demo_env 200000 (Some ''h.bnVsbA.s'') = Inl ''exp''"
    by (simp add: still_valid_def codec_defs value_defs demo_env_def demo_claims_def)
  have e: "params_toString ?creds = ''remember=false''"
    by (simp add: params_toString_def form_encode_def encode_byte_def unreserved_def)
  have c: "calls (demo_world ''old'') = []"
    by (simp add: demo_world_def)
  have f: "fetch demo_env [] (Fetch ''/api/oauth2/token/'' POST
             (Some [(''Content-Type'', ''application/x-www-form-urlencoded'')])
             (Some ''remember=false'')) =
           Resolved \<lparr>status = 200, ok = True, statusText = ''OK'', json = Inr demo_pair\<rparr>"
    by (simp add: demo_env_def demo_fetch_def)
  have p: "isAPIAuthTokens (Some demo_pair)"
    by (simp add: isAPIAuthTokens_def is_string_def demo_pair_def value_defs)
  have q: "\<not> isAPIAuthTokens (Some (JObj [(''access_token'', JStr ''new'')]))"
    by (simp add: isAPIAuthTokens_def is_string_def value_defs)
  have m: "nullReadMessage demo_env ''exp'' = ''Cannot read properties of null''"
    by (simp add: demo_env_def)
  have w: "clear_tokens (demo_world ''h.bnVsbA.s'') =
         \<lparr>localStorage = \<lparr>access_token = None, refresh_token = None\<rparr>,
          sessionStorage = \<lparr>access_token = None, refresh_token = None\<rparr>,
          calls = []\<rparr>"
    by (simp add: clear_tokens_def demo_world_def)
  from v n nb k
    runTokenRequest_stored_or_one_post [of demo_env 50000 "demo_world ''old''" ?creds ?snap]
    runTokenRequest_stored_or_one_post [of demo_env 200000 "demo_world ''old''" ?creds ?snap]
    runTokenRequest_stored_or_one_post [of ?bad 200000 "demo_world ''old''" ?creds ?snap]
    runTokenRequest_stored_or_one_post [of demo_env 200000 "demo_world ''h.bnVsbA.s''" ?creds
      "first_render (demo_world ''h.bnVsbA.s'')"]
  show ?thesis
    by (simp add: t tn e c f p q m w of_nullable_def)
qed

text \<open>
  A stored token that the decoder turns into \<open>null\<close> (the string \<open>h.bnVsbA.s\<close>): its
  expiry is not greater than the current time, yet no POST is made; the coordinator
  fails with a \<open>TypeError\<close>.
\<close>

theorem runTokenRequest_stored_or_one_post_counterexample:
  "still_valid demo_env 200000 (fst (current_tokens (demo_world ''h.bnVsbA.s''))) \<noteq> Inr True
   \<and> runTokenRequest demo_env 200000 [(''remember'', ''false'')]
        (first_render (demo_world ''h.bnVsbA.s'')) (demo_world ''h.bnVsbA.s'') =
        (Inl (TypeError ''Cannot read properties of null''),
         \<lparr>localStorage = \<lparr>access_token = None, refresh_token = None\<rparr>,
          sessionStorage = \<lparr>access_token = None, refresh_token = None\<rparr>,
          calls = []\<rparr>)"
  by (simp add: run_defs demo_defs Let_def)

section \<open>Request executor\<close>

lemma settle_error_status:
  assumes "status resp \<ge> 400"
  shows "\<exists>msg. settle env snap options (Resolved resp) = Inl (APIError msg (status resp))"
  using assms by (simp add: settle_def split: sum.splits)

lemma settle_detail:
  assumes "status resp \<ge> 400" "\<not> ok resp"
      and "json resp = Inr (JObj kvs)" "map_of kvs ''detail'' = Some (JStr d)"
  shows "settle env snap options (Resolved resp) = Inl (APIError d (status resp))"
  using assms
  by (simp add: settle_def response_data_def detail_message_def get_prop_def js_String_def)

lemma settle_parse_error:
  assumes "status resp \<ge> 400" "json resp = Inl m"
  shows "settle env snap options (Resolved resp) = Inl (APIError m (status resp))"
  using assms by (simp add: settle_def response_data_def)

lemma settle_statusText:
  assumes "status resp \<ge> 400" "ok resp" "json resp = Inr j"
      and "\<not> validation_fails options (Some j)"
  shows "settle env snap options (Resolved resp) = Inl (APIError (statusText resp) (status resp))"
  using assms by (simp add: settle_def response_data_def)

text \<open>
  C6 (amended). For every response of the transport with a status of 400 or more,
  \<open>runRawRequest\<close> raises an \<open>APIError\<close> whose code is that status. Its message is
  the \<open>detail\<close> field of the body when the response is not flagged \<open>ok\<close> and its body
  is a JSON object with a string \<open>detail\<close>; it is the status text when the response is
  flagged \<open>ok\<close>, its body parses and the validators accept it; it is the message of
  the parse error when the body does not parse.
\<close>

theorem runRawRequest_error_status:
  assumes "fetch env (calls w) (fetch_request options) = Resolved resp"
      and "status resp \<ge> 400"
  shows "\<exists>msg. fst (runRawRequest env snap options w) = Inl (APIError msg (status resp))
           \<and> (\<forall>kvs d. \<not> ok resp \<and> json resp = Inr (JObj kvs)
                  \<and> map_of kvs ''detail'' = Some (JStr d) \<longrightarrow> msg = d)
           \<and> (\<forall>j. ok resp \<and> json resp = Inr j \<and> \<not> validation_fails options (Some j)
                  \<longrightarrow> msg = statusText resp)
           \<and> (\<forall>m. json resp = Inl m \<longrightarrow> msg = m)"
proof -
  from settle_error_status [OF assms(2)] obtain msg where
    m: "settle env snap options (Resolved resp) = Inl (APIError msg (status resp))"
    by blast
  have "msg = d" if "\<not> ok resp" "json resp = Inr (JObj kvs)"
    "map_of kvs ''detail'' = Some (JStr d)" for kvs d
    using settle_detail [OF assms(2) that, of env snap options] m by simp
  moreover have "msg = statusText resp" if "ok resp" "json resp = Inr j"
    "\<not> validation_fails options (Some j)" for j
    using settle_statusText [OF assms(2) that, of env snap] m by simp
  moreover have "msg = e" if "json resp = Inl e" for e
    using settle_parse_error [OF assms(2) that, of env snap options] m by simp
  ultimately show ?thesis
    using m assms(1) by (auto simp: fst_runRawRequest)
qed

theorem runRawRequest_error_status_witness:
  "fst (runRawRequest demo_env (useAPI demo_env (demo_world ''new'')) (demo_get ''/forbidden'')
          (demo_world ''new'')) = Inl (APIError ''No entry'' 403)
   \<and> fst (runRawRequest demo_env (useAPI demo_env (demo_world ''new'')) (demo_get ''/teapot'')
          (demo_world ''new'')) = Inl (APIError ''I am a teapot'' 418)"
proof -
  let ?snap = "useAPI demo_env (demo_world ''new'')"
  let ?f = "\<lparr>status = 403, ok = False, statusText = ''Forbidden'',
             json = Inr (JObj [(''detail'', JStr ''No entry'')])\<rparr>"
  let ?t = "\<lparr>status = 418, ok = True, statusText = ''I am a teapot'',
             json = Inr (JObj [(''detail'', JStr ''short and stout'')])\<rparr>"
  have f: "fetch demo_env (calls (demo_world ''new'')) (fetch_request (demo_get ''/forbidden''))
             = Resolved ?f"
    by (simp add: demo_defs fetch_request_def)
  have t: "fetch demo_env (calls (demo_world ''new'')) (fetch_request (demo_get ''/teapot''))
             = Resolved ?t"
    by (simp add: demo_defs fetch_request_def)
  have v: "\<not> validation_fails (demo_get ''/teapot'')
              (Some (JObj [(''detail'', JStr ''short and stout'')]))"
    by (simp add: validation_fails_def demo_get_def)
  from runRawRequest_error_status [OF f, of ?snap] obtain m where
    "fst (runRawRequest demo_env ?snap (demo_get ''/forbidden'') (demo_world ''new''))
       = Inl (APIError m 403)" and
    "\<forall>kvs d. \<not> ok ?f \<and> json ?f = Inr (JObj kvs) \<and> map_of kvs ''detail'' = Some (JStr d) \<longrightarrow> m = d"
    by auto
  then have a: "fst (runRawRequest demo_env ?snap (demo_get ''/forbidden'') (demo_world ''new''))
       = Inl (APIError ''No entry'' 403)"
    by simp
  from runRawRequest_error_status [OF t, of ?snap] obtain m' where
    "fst (runRawRequest demo_env ?snap (demo_get ''/teapot'') (demo_world ''new''))
       = Inl (APIError m' 418)" and
    "\<forall>j. ok ?t \<and> json ?t = Inr j \<and> \<not> validation_fails (demo_get ''/teapot'') (Some j)
        \<longrightarrow> m' = statusText ?t"
    by auto
  with v have b: "fst (runRawRequest demo_env ?snap (demo_get ''/teapot'') (demo_world ''new''))
       = Inl (APIError ''I am a teapot'' 418)"
    by simp
  from a b show ?thesis by simp
qed

text \<open>
  The claim as the specification states it fails. A 401 response with an empty body, as
  the tests of the hook set up, has no \<open>detail\<close>, and the \<open>APIError\<close> raised carries
  the message of the JSON parser, not the status text \<open>Unauthorized\<close>. A 404 response
  that is not \<open>ok\<close> and whose body is an object with no \<open>detail\<close> raises an
  \<open>APIError\<close> with the empty message, not with the status text \<open>Not Found\<close>.
\<close>

theorem runRawRequest_error_status_counterexample:
  "fetch demo_env (calls (demo_world ''new'')) (fetch_request (demo_get ''/unauthorized'')) =
     Resolved \<lparr>status = 401, ok = False, statusText = ''Unauthorized'',
               json = Inl ''Unexpected end of JSON input''\<rparr>
   \<and> fst (runRawRequest demo_env (useAPI demo_env (demo_world ''new'')) (demo_get ''/unauthorized'')
          (demo_world ''new'')) = Inl (APIError ''Unexpected end of JSON input'' 401)
   \<and> fetch demo_env (calls (demo_world ''new'')) (fetch_request (demo_get ''/missing'')) =
     Resolved \<lparr>status = 404, ok = False, statusText = ''Not Found'', json = Inr (JObj [])\<rparr>
   \<and> fst (runRawRequest demo_env (useAPI demo_env (demo_world ''new'')) (demo_get ''/missing'')
          (demo_world ''new'')) = Inl (APIError [] 404)"
  by (simp add: run_defs demo_defs)


section \<open>Logout\<close>

lemma logout_no_refresh_token:
  assumes "\<not> truthy (refreshToken snap)"
  shows "logout env snap w = (Inr \<lparr>code = 204, data = None\<rparr>, clear_tokens w)"
  using assms by (simp add: logout_def)

lemma logout_revoke:
  assumes "truthy (refreshToken snap)"
  shows "logout env snap w =
           (case fst (runRawRequest env snap (logout_request (or_empty (refreshToken snap))) w) of
              Inl e \<Rightarrow> (Inl e, snd (runRawRequest env snap
                                    (logout_request (or_empty (refreshToken snap))) w))
            | Inr r \<Rightarrow> (Inr r, clear_tokens (snd (runRawRequest env snap
                                    (logout_request (or_empty (refreshToken snap))) w))))"
  using assms
  by (cases "runRawRequest env snap (logout_request (or_empty (refreshToken snap))) w")
    (simp add: logout_def split: sum.splits)

lemma fetch_request_logout:
  "fetch_request (logout_request rt) =
     Fetch ''/api/oauth2/logout/'' POST
       (Some [(''Content-Type'', ''application/x-www-form-urlencoded'')])
       (Some (params_toString [(''refresh_token'', rt), (''grant_type'', ''refresh_token'')]))"
  by (simp add: fetch_request_def logout_request_def)

text \<open>
  C5 (amended). When no refresh token is held, \<open>logout\<close> makes no call, returns the
  made-up success with code 204 and clears both tokens from both scopes. When one is
  held it makes the revoke call, one POST to \<open>/api/oauth2/logout/\<close>; when that call
  succeeds it clears both tokens from both scopes and returns the response; when that
  call fails its error is raised and the stored tokens are left as they were.
\<close>

theorem logout_clears_unless_revoke_fails:
  "(\<not> truthy (refreshToken snap) \<longrightarrow>
      fst (logout env snap w) = Inr \<lparr>code = 204, data = None\<rparr>
      \<and> calls (snd (logout env snap w)) = calls w
      \<and> localStorage (snd (logout env snap w)) = \<lparr>access_token = None, refresh_token = None\<rparr>
      \<and> sessionStorage (snd (logout env snap w)) = \<lparr>access_token = None, refresh_token = None\<rparr>)
   \<and> (truthy (refreshToken snap) \<longrightarrow>
      calls (snd (logout env snap w)) =
        calls w @ [Fetch ''/api/oauth2/logout/'' POST
                     (Some [(''Content-Type'', ''application/x-www-form-urlencoded'')])
                     (Some (params_toString [(''refresh_token'', or_empty (refreshToken snap)),
                                             (''grant_type'', ''refresh_token'')]))]
      \<and> fst (logout env snap w) =
          fst (runRawRequest env snap (logout_request (or_empty (refreshToken snap))) w)
      \<and> (\<forall>r. fst (logout env snap w) = Inr r \<longrightarrow>
            localStorage (snd (logout env snap w)) = \<lparr>access_token = None, refresh_token = None\<rparr>
            \<and> sessionStorage (snd (logout env snap w)) =
                \<lparr>access_token = None, refresh_token = None\<rparr>)
      \<and> (\<forall>e. fst (logout env snap w) = Inl e \<longrightarrow>
            localStorage (snd (logout env snap w)) = localStorage w
            \<and> sessionStorage (snd (logout env snap w)) = sessionStorage w))"
proof (intro conjI impI allI)
  assume n: "\<not> truthy (refreshToken snap)"
  show "fst (logout env snap w) = Inr \<lparr>code = 204, data = None\<rparr>"
    and "calls (snd (logout env snap w)) = calls w"
    and "localStorage (snd (logout env snap w)) = \<lparr>access_token = None, refresh_token = None\<rparr>"
    and "sessionStorage (snd (logout env snap w)) = \<lparr>access_token = None, refresh_token = None\<rparr>"
    by (simp_all add: logout_no_refresh_token [OF n] calls_clear_tokens storage_clear_tokens)
next
  assume t: "truthy (refreshToken snap)"
  show "calls (snd (logout env snap w)) =
        calls w @ [Fetch ''/api/oauth2/logout/'' POST
                     (Some [(''Content-Type'', ''application/x-www-form-urlencoded'')])
                     (Some (params_toString [(''refresh_token'', or_empty (refreshToken snap)),
                                             (''grant_type'', ''refresh_token'')]))]"
    by (simp add: logout_revoke [OF t] calls_clear_tokens calls_runRawRequest
        fetch_request_logout split: sum.splits)
  show "fst (logout env snap w) =
          fst (runRawRequest env snap (logout_request (or_empty (refreshToken snap))) w)"
    by (simp add: logout_revoke [OF t] split: sum.splits)
next
  fix r
  assume t: "truthy (refreshToken snap)" and r: "fst (logout env snap w) = Inr r"
  from r show "localStorage (snd (logout env snap w)) = \<lparr>access_token = None, refresh_token = None\<rparr>"
    and "sessionStorage (snd (logout env snap w)) = \<lparr>access_token = None, refresh_token = None\<rparr>"
    by (simp_all add: logout_revoke [OF t] storage_clear_tokens split: sum.splits)
next
  fix e
  assume t: "truthy (refreshToken snap)" and e: "fst (logout env snap w) = Inl e"
  from e show "localStorage (snd (logout env snap w)) = localStorage w"
    and "sessionStorage (snd (logout env snap w)) = sessionStorage w"
    by (simp_all add: logout_revoke [OF t] storage_runRawRequest split: sum.splits)
qed

text \<open>A storage that holds no refresh token, and one whose revoke call fails.\<close>

theorem logout_clears_unless_revoke_fails_witness:
  "\<not> truthy (refreshToken (useAPI demo_env
        \<lparr>localStorage = \<lparr>access_token = Some ''new'', refresh_token = None\<rparr>,
         sessionStorage = \<lparr>access_token = None, refresh_token = None\<rparr>, calls = []\<rparr>))
   \<and> fst (logout demo_env (useAPI demo_env
        \<lparr>localStorage = \<lparr>access_token = Some ''new'', refresh_token = None\<rparr>,
         sessionStorage = \<lparr>access_token = None, refresh_token = None\<rparr>, calls = []\<rparr>)
        \<lparr>localStorage = \<lparr>access_token = Some ''new'', refresh_token = None\<rparr>,
         sessionStorage = \<lparr>access_token = None, refresh_token = None\<rparr>, calls = []\<rparr>)
       = Inr \<lparr>code = 204, data = None\<rparr>
   \<and> snd (logout demo_env (useAPI demo_env
        \<lparr>localStorage = \<lparr>access_token = Some ''new'', refresh_token = None\<rparr>,
         sessionStorage = \<lparr>access_token = None, refresh_token = None\<rparr>, calls = []\<rparr>)
        \<lparr>localStorage = \<lparr>access_token = Some ''new'', refresh_token = None\<rparr>,
         sessionStorage = \<lparr>access_token = None, refresh_token = None\<rparr>, calls = []\<rparr>)
       = \<lparr>localStorage = \<lparr>access_token = None, refresh_token = None\<rparr>,
          sessionStorage = \<lparr>access_token = None, refresh_token = None\<rparr>, calls = []\<rparr>
   \<and> truthy (refreshToken (useAPI demo_env (demo_world ''new'')))
   \<and> fst (logout demo_env (useAPI demo_env (demo_world ''new'')) (demo_world ''new''))
       = Inl (APIError ''Failed to fetch'' (- 1))
   \<and> localStorage (snd (logout demo_env (useAPI demo_env (demo_world ''new'')) (demo_world ''new'')))
       = \<lparr>access_token = Some ''new'', refresh_token = Some ''r1''\<rparr>"
proof -
  let ?w = "\<lparr>localStorage = \<lparr>access_token = Some ''new'', refresh_token = None\<rparr>,
         sessionStorage = \<lparr>access_token = None, refresh_token = None\<rparr>, calls = []\<rparr>"
  have n: "\<not> truthy (refreshToken (useAPI demo_env ?w))"
    by (simp add: useAPI_def refreshToken_def js_or_def truthy_def)
  have t: "truthy (refreshToken (useAPI demo_env (demo_world ''new'')))"
    by (simp add: useAPI_def refreshToken_def js_or_def truthy_def demo_world_def)
  have e: "fst (runRawRequest demo_env (useAPI demo_env (demo_world ''new''))
      (logout_request (or_empty (refreshToken (useAPI demo_env (demo_world ''new'')))))
      (demo_world ''new'')) = Inl (APIError ''Failed to fetch'' (- 1))"
    by (simp add: run_defs demo_defs)
  have l: "localStorage (demo_world ''new'') = \<lparr>access_token = Some ''new'', refresh_token = Some ''r1''\<rparr>"
    by (simp add: demo_world_def)
  from n t logout_clears_unless_revoke_fails [of "useAPI demo_env ?w" demo_env ?w]
    logout_clears_unless_revoke_fails [of "useAPI demo_env (demo_world ''new'')" demo_env
      "demo_world ''new''"]
  show ?thesis
    by (simp add: e l World.equality)
qed

text \<open>
  The claim as the specification states it fails: when the revoke call fails, the durable
  scope still holds both tokens after \<open>logout\<close>.
\<close>

theorem logout_clears_unless_revoke_fails_counterexample:
  "fst (logout demo_env (useAPI demo_env (demo_world ''new'')) (demo_world ''new''))
       = Inl (APIError ''Failed to fetch'' (- 1))
   \<and> access_token (localStorage (snd (logout demo_env (useAPI demo_env (demo_world ''new''))
        (demo_world ''new'')))) = Some ''new''
   \<and> refresh_token (localStorage (snd (logout demo_env (useAPI demo_env (demo_world ''new''))
        (demo_world ''new'')))) = Some ''r1''"
  by (simp add: run_defs demo_defs)


section \<open>The ways \<open>request\<close> ends\<close>

lemma request_missing_token:
  assumes "\<not> truthy (accessToken snap)"
  shows "request env now now' options snap w =
           (Inl (APIError ''Missing access token'' 401), options, w)"
  using assms by (simp add: request_def)

lemma request_raised:
  assumes "truthy (accessToken snap)"
      and "expiring env now (tokenData snap) = Inl k"
  shows "request env now now' options snap w =
           (Inl (TypeError (nullReadMessage env k)),
            options\<lparr>headers := Some (request_headers env snap options)\<rparr>, w)"
  using assms by (simp add: request_def Let_def)

lemma request_no_refresh:
  assumes "truthy (accessToken snap)"
      and "expiring env now (tokenData snap) = Inr soon"
      and "\<not> (soon \<and> truthy (refreshToken snap))"
  shows "request env now now' options snap w =
           (fst (runRawRequest env snap
                   (options\<lparr>headers := Some (request_headers env snap options)\<rparr>) w),
            options\<lparr>headers := Some (request_headers env snap options)\<rparr>,
            snd (runRawRequest env snap
                   (options\<lparr>headers := Some (request_headers env snap options)\<rparr>) w))"
  using assms by (auto simp: request_def Let_def split: prod.splits)

lemma request_refresh:
  assumes "truthy (accessToken snap)"
      and "expiring env now (tokenData snap) = Inr True"
      and "truthy (refreshToken snap)"
  shows "request env now now' options snap w =
           (case runTokenRequest env now' (refresh_creds snap) snap w of
              (Inl e, w1) \<Rightarrow>
                (Inl e, options\<lparr>headers := Some (request_headers env snap options)\<rparr>, w1)
            | (Inr tokResp, w1) \<Rightarrow>
                (fst (runRawRequest env snap
                   (options\<lparr>headers := Some (AList.update ''Authorization''
                      (''Bearer '' @ js_String env (read_prop (data tokResp) ''access_token''))
                      (request_headers env snap options))\<rparr>) w1),
                 options\<lparr>headers := Some (AList.update ''Authorization''
                      (''Bearer '' @ js_String env (read_prop (data tokResp) ''access_token''))
                      (request_headers env snap options))\<rparr>,
                 snd (runRawRequest env snap
                   (options\<lparr>headers := Some (AList.update ''Authorization''
                      (''Bearer '' @ js_String env (read_prop (data tokResp) ''access_token''))
                      (request_headers env snap options))\<rparr>) w1)))"
  using assms by (simp add: request_def Let_def split: prod.splits sum.splits)

lemma expiring_cases:
  obtains (raised) k where "expiring env now td = Inl k"
  | (soon) "expiring env now td = Inr True"
  | (later) "expiring env now td = Inr False"
  by (cases "expiring env now td") auto

text \<open>The storage \<open>request\<close> leaves after a refresh is the one the coordinator left.\<close>

lemma storage_request_refresh:
  assumes "truthy (accessToken snap)"
      and "expiring env now (tokenData snap) = Inr True"
      and "truthy (refreshToken snap)"
  shows "localStorage (snd (snd (request env now now' options snap w))) =
           localStorage (snd (runTokenRequest env now' (refresh_creds snap) snap w))"
    and "sessionStorage (snd (snd (request env now now' options snap w))) =
           sessionStorage (snd (runTokenRequest env now' (refresh_creds snap) snap w))"
  by (simp_all add: request_refresh [OF assms] storage_runRawRequest
      split: prod.splits sum.splits)

lemma remember_login:
  "params_get [(''username'', user), (''password'', password),
               (''remember'', if remember then ''true'' else ''false''),
               (''grant_type'', ''password'')] ''remember'' = Some ''true'' \<longleftrightarrow> remember"
  by (simp add: params_get_def)

lemma remember_refresh:
  "params_get (refresh_creds snap) ''remember'' = Some ''true'' \<longleftrightarrow> truthy (accessTokenLS snap)"
  by (simp add: params_get_def refresh_creds_def)

text \<open>
  C4. For every successful login or refresh through the coordinator, the resulting pair
  is written to the durable scope when the \<open>remember\<close> field of the credentials is
  \<open>true\<close> and to the session scope otherwise, and the other scope holds nothing:
  \<^item> for \<open>runTokenRequest\<close> with any credentials;
  \<^item> for \<open>login\<close>, which goes through the coordinator with the credentials
    \<open>username\<close>, \<open>password\<close>, \<open>remember\<close> and \<open>grant_type=password\<close>, the
    \<open>remember\<close> field being its \<open>remember\<close> argument: its call of the token endpoint,
    when it makes one, carries these fields, and the pair is written to the durable scope
    when the argument is true and to the session scope when it is false;
  \<^item> for the refresh of \<open>request\<close>, whose \<open>remember\<close> field says whether the durable
    scope held the access token in the render of the hook.

  The pair is written as strings: a token that is a string verbatim, which is every token
  of a pair the token endpoint issued; a re-read pair that had no refresh token has
  \<open>null\<close> there and is serialised by \<open>String\<close>.
\<close>

theorem runTokenRequest_persists_by_remember:
  "(\<forall>r. fst (runTokenRequest env now creds snap w) = Inr r \<longrightarrow>
      (\<exists>a rt.
           read_prop (data r) ''access_token'' = Some (of_nullable a)
         \<and> read_prop (data r) ''refresh_token'' = Some (of_nullable rt)
         \<and> (still_valid env now (fst (current_tokens w)) = Inr False \<longrightarrow> a \<noteq> None \<and> rt \<noteq> None)
         \<and> (params_get creds ''remember'' = Some ''true'' \<longrightarrow>
              localStorage (snd (runTokenRequest env now creds snap w)) =
                \<lparr>access_token = Some (case a of None \<Rightarrow> ''null'' | Some s \<Rightarrow> s),
                 refresh_token = Some (case rt of None \<Rightarrow> ''null'' | Some s \<Rightarrow> s)\<rparr>
              \<and> sessionStorage (snd (runTokenRequest env now creds snap w)) =
                \<lparr>access_token = None, refresh_token = None\<rparr>)
         \<and> (params_get creds ''remember'' \<noteq> Some ''true'' \<longrightarrow>
              sessionStorage (snd (runTokenRequest env now creds snap w)) =
                \<lparr>access_token = Some (case a of None \<Rightarrow> ''null'' | Some s \<Rightarrow> s),
                 refresh_token = Some (case rt of None \<Rightarrow> ''null'' | Some s \<Rightarrow> s)\<rparr>
              \<and> localStorage (snd (runTokenRequest env now creds snap w)) =
                \<lparr>access_token = None, refresh_token = None\<rparr>)))
   \<and> calls (snd (login env now user password remember snap w)) =
        (if still_valid env now (fst (current_tokens w)) = Inr False then
           calls w @ [Fetch ''/api/oauth2/token/'' POST
                        (Some [(''Content-Type'', ''application/x-www-form-urlencoded'')])
                        (Some (params_toString
                           [(''username'', user), (''password'', password),
                            (''remember'', if remember then ''true'' else ''false''),
                            (''grant_type'', ''password'')]))]
         else calls w)
   \<and> (\<forall>r. fst (login env now user password remember snap w) = Inr r \<longrightarrow>
      (\<exists>a rt.
           read_prop (data r) ''access_token'' = Some (of_nullable a)
         \<and> read_prop (data r) ''refresh_token'' = Some (of_nullable rt)
         \<and> (still_valid env now (fst (current_tokens w)) = Inr False \<longrightarrow> a \<noteq> None \<and> rt \<noteq> None)
         \<and> (remember \<longrightarrow>
              localStorage (snd (login env now user password remember snap w)) =
                \<lparr>access_token = Some (case a of None \<Rightarrow> ''null'' | Some s \<Rightarrow> s),
                 refresh_token = Some (case rt of None \<Rightarrow> ''null'' | Some s \<Rightarrow> s)\<rparr>
              \<and> sessionStorage (snd (login env now user password remember snap w)) =
                \<lparr>access_token = None, refresh_token = None\<rparr>)
         \<and> (\<not> remember \<longrightarrow>
              sessionStorage (snd (login env now user password remember snap w)) =
                \<lparr>access_token = Some (case a of None \<Rightarrow> ''null'' | Some s \<Rightarrow> s),
                 refresh_token = Some (case rt of None \<Rightarrow> ''null'' | Some s \<Rightarrow> s)\<rparr>
              \<and> localStorage (snd (login env now user password remember snap w)) =
                \<lparr>access_token = None, refresh_token = None\<rparr>)))
   \<and> (\<forall>r. truthy (accessToken snap) \<and> truthy (refreshToken snap)
          \<and> expiring env now (tokenData snap) = Inr True
          \<and> fst (runTokenRequest env now' (refresh_creds snap) snap w) = Inr r \<longrightarrow>
      (\<exists>a rt.
           read_prop (data r) ''access_token'' = Some (of_nullable a)
         \<and> read_prop (data r) ''refresh_token'' = Some (of_nullable rt)
         \<and> (still_valid env now' (fst (current_tokens w)) = Inr False \<longrightarrow> a \<noteq> None \<and> rt \<noteq> None)
         \<and> (truthy (accessTokenLS snap) \<longrightarrow>
              localStorage (snd (snd (request env now now' options snap w))) =
                \<lparr>access_token = Some (case a of None \<Rightarrow> ''null'' | Some s \<Rightarrow> s),
                 refresh_token = Some (case rt of None \<Rightarrow> ''null'' | Some s \<Rightarrow> s)\<rparr>
              \<and> sessionStorage (snd (snd (request env now now' options snap w))) =
                \<lparr>access_token = None, refresh_token = None\<rparr>)
         \<and> (\<not> truthy (accessTokenLS snap) \<longrightarrow>
              sessionStorage (snd (snd (request env now now' options snap w))) =
                \<lparr>access_token = Some (case a of None \<Rightarrow> ''null'' | Some s \<Rightarrow> s),
                 refresh_token = Some (case rt of None \<Rightarrow> ''null'' | Some s \<Rightarrow> s)\<rparr>
              \<and> localStorage (snd (snd (request env now now' options snap w))) =
                \<lparr>access_token = None, refresh_token = None\<rparr>)))"
proof (intro conjI allI impI)
  fix r
  assume "fst (runTokenRequest env now creds snap w) = Inr r"
  then show "\<exists>a rt.
           read_prop (data r) ''access_token'' = Some (of_nullable a)
         \<and> read_prop (data r) ''refresh_token'' = Some (of_nullable rt)
         \<and> (still_valid env now (fst (current_tokens w)) = Inr False \<longrightarrow> a \<noteq> None \<and> rt \<noteq> None)
         \<and> (params_get creds ''remember'' = Some ''true'' \<longrightarrow>
              localStorage (snd (runTokenRequest env now creds snap w)) =
                \<lparr>access_token = Some (case a of None \<Rightarrow> ''null'' | Some s \<Rightarrow> s),
                 refresh_token = Some (case rt of None \<Rightarrow> ''null'' | Some s \<Rightarrow> s)\<rparr>
              \<and> sessionStorage (snd (runTokenRequest env now creds snap w)) =
                \<lparr>access_token = None, refresh_token = None\<rparr>)
         \<and> (params_get creds ''remember'' \<noteq> Some ''true'' \<longrightarrow>
              sessionStorage (snd (runTokenRequest env now creds snap w)) =
                \<lparr>access_token = Some (case a of None \<Rightarrow> ''null'' | Some s \<Rightarrow> s),
                 refresh_token = Some (case rt of None \<Rightarrow> ''null'' | Some s \<Rightarrow> s)\<rparr>
              \<and> localStorage (snd (runTokenRequest env now creds snap w)) =
                \<lparr>access_token = None, refresh_token = None\<rparr>)"
    by (rule runTokenRequest_persists)
next
  show "calls (snd (login env now user password remember snap w)) =
        (if still_valid env now (fst (current_tokens w)) = Inr False then
           calls w @ [Fetch ''/api/oauth2/token/'' POST
                        (Some [(''Content-Type'', ''application/x-www-form-urlencoded'')])
                        (Some (params_toString
                           [(''username'', user), (''password'', password),
                            (''remember'', if remember then ''true'' else ''false''),
                            (''grant_type'', ''password'')]))]
         else calls w)"
    unfolding login_def by (rule calls_runTokenRequest)
next
  fix r
  assume "fst (login env now user password remember snap w) = Inr r"
  then have "fst (runTokenRequest env now
       [(''username'', user), (''password'', password),
        (''remember'', if remember then ''true'' else ''false''),
        (''grant_type'', ''password'')] snap w) = Inr r"
    by (simp add: login_def)
  from runTokenRequest_persists [OF this]
  show "\<exists>a rt.
           read_prop (data r) ''access_token'' = Some (of_nullable a)
         \<and> read_prop (data r) ''refresh_token'' = Some (of_nullable rt)
         \<and> (still_valid env now (fst (current_tokens w)) = Inr False \<longrightarrow> a \<noteq> None \<and> rt \<noteq> None)
         \<and> (remember \<longrightarrow>
              localStorage (snd (login env now user password remember snap w)) =
                \<lparr>access_token = Some (case a of None \<Rightarrow> ''null'' | Some s \<Rightarrow> s),
                 refresh_token = Some (case rt of None \<Rightarrow> ''null'' | Some s \<Rightarrow> s)\<rparr>
              \<and> sessionStorage (snd (login env now user password remember snap w)) =
                \<lparr>access_token = None, refresh_token = None\<rparr>)
         \<and> (\<not> remember \<longrightarrow>
              sessionStorage (snd (login env now user password remember snap w)) =
                \<lparr>access_token = Some (case a of None \<Rightarrow> ''null'' | Some s \<Rightarrow> s),
                 refresh_token = Some (case rt of None \<Rightarrow> ''null'' | Some s \<Rightarrow> s)\<rparr>
              \<and> localStorage (snd (login env now user password remember snap w)) =
                \<lparr>access_token = None, refresh_token = None\<rparr>)"
    unfolding remember_login login_def .
next
  fix r
  assume h: "truthy (accessToken snap) \<and> truthy (refreshToken snap)
          \<and> expiring env now (tokenData snap) = Inr True
          \<and> fst (runTokenRequest env now' (refresh_creds snap) snap w) = Inr r"
  then have s: "localStorage (snd (snd (request env now now' options snap w))) =
           localStorage (snd (runTokenRequest env now' (refresh_creds snap) snap w))"
       "sessionStorage (snd (snd (request env now now' options snap w))) =
           sessionStorage (snd (runTokenRequest env now' (refresh_creds snap) snap w))"
    by (simp_all add: storage_request_refresh)
  from h have "fst (runTokenRequest env now' (refresh_creds snap) snap w) = Inr r"
    by simp
  from runTokenRequest_persists [OF this]
  show "\<exists>a rt.
           read_prop (data r) ''access_token'' = Some (of_nullable a)
         \<and> read_prop (data r) ''refresh_token'' = Some (of_nullable rt)
         \<and> (still_valid env now' (fst (current_tokens w)) = Inr False \<longrightarrow> a \<noteq> None \<and> rt \<noteq> None)
         \<and> (truthy (accessTokenLS snap) \<longrightarrow>
              localStorage (snd (snd (request env now now' options snap w))) =
                \<lparr>access_token = Some (case a of None \<Rightarrow> ''null'' | Some s \<Rightarrow> s),
                 refresh_token = Some (case rt of None \<Rightarrow> ''null'' | Some s \<Rightarrow> s)\<rparr>
              \<and> sessionStorage (snd (snd (request env now now' options snap w))) =
                \<lparr>access_token = None, refresh_token = None\<rparr>)
         \<and> (\<not> truthy (accessTokenLS snap) \<longrightarrow>
              sessionStorage (snd (snd (request env now now' options snap w))) =
                \<lparr>access_token = Some (case a of None \<Rightarrow> ''null'' | Some s \<Rightarrow> s),
                 refresh_token = Some (case rt of None \<Rightarrow> ''null'' | Some s \<Rightarrow> s)\<rparr>
              \<and> localStorage (snd (snd (request env now now' options snap w))) =
                \<lparr>access_token = None, refresh_token = None\<rparr>)"
    unfolding remember_refresh s .
qed

theorem runTokenRequest_persists_by_remember_witness:
  "fst (login demo_env 200000 ''joe'' ''pw'' True
          (useAPI demo_env (demo_world ''old'')) (demo_world ''old'')) =
     Inr \<lparr>code = 200, data = Some demo_pair\<rparr>
   \<and> localStorage (snd (login demo_env 200000 ''joe'' ''pw'' True
          (useAPI demo_env (demo_world ''old'')) (demo_world ''old''))) =
     \<lparr>access_token = Some ''new'', refresh_token = Some ''r2''\<rparr>
   \<and> sessionStorage (snd (login demo_env 200000 ''joe'' ''pw'' True
          (useAPI demo_env (demo_world ''old'')) (demo_world ''old''))) =
     \<lparr>access_token = None, refresh_token = None\<rparr>
   \<and> fst (login demo_env 200000 ''joe'' ''pw'' False
          (useAPI demo_env (demo_world ''old'')) (demo_world ''old'')) =
     Inr \<lparr>code = 200, data = Some demo_pair\<rparr>
   \<and> sessionStorage (snd (login demo_env 200000 ''joe'' ''pw'' False
          (useAPI demo_env (demo_world ''old'')) (demo_world ''old''))) =
     \<lparr>access_token = Some ''new'', refresh_token = Some ''r2''\<rparr>
   \<and> localStorage (snd (login demo_env 200000 ''joe'' ''pw'' False
          (useAPI demo_env (demo_world ''old'')) (demo_world ''old''))) =
     \<lparr>access_token = None, refresh_token = None\<rparr>
   \<and> calls (snd (login demo_env 200000 ''joe'' ''pw'' False
          (useAPI demo_env (demo_world ''old'')) (demo_world ''old''))) =
     [Fetch ''/api/oauth2/token/'' POST
        (Some [(''Content-Type'', ''application/x-www-form-urlencoded'')])
        (Some ''username=joe&password=pw&remember=false&grant_type=password'')]
   \<and> truthy (accessTokenLS (useAPI demo_env (demo_world ''old'')))
   \<and> localStorage (snd (snd (request demo_env 200000 200000 (demo_get ''/foo'')
          (useAPI demo_env (demo_world ''old'')) (demo_world ''old'')))) =
     \<lparr>access_token = Some ''new'', refresh_token = Some ''r2''\<rparr>
   \<and> sessionStorage (snd (snd (request demo_env 200000 200000 (demo_get ''/foo'')
          (useAPI demo_env (demo_world ''old'')) (demo_world ''old'')))) =
     \<lparr>access_token = None, refresh_token = None\<rparr>"
proof -
  let ?snap = "useAPI demo_env (demo_world ''old'')"
  let ?w = "demo_world ''old''"
  let ?r = "\<lparr>code = 200, data = Some demo_pair\<rparr>"
  have ft: "fst (login demo_env 200000 ''joe'' ''pw'' True ?snap ?w) = Inr ?r"
    by (simp add: run_defs demo_defs)
  have ff: "fst (login demo_env 200000 ''joe'' ''pw'' False ?snap ?w) = Inr ?r"
    by (simp add: run_defs demo_defs)
  have fr: "fst (runTokenRequest demo_env 200000 (refresh_creds ?snap) ?snap ?w) = Inr ?r"
    by (simp add: run_defs demo_defs)
  have n: "still_valid demo_env 200000 (fst (current_tokens ?w)) = Inr False"
    by (simp add: run_defs demo_defs)
  have c: "calls ?w = []"
    by (simp add: demo_world_def)
  have e: "params_toString [(''username'', ''joe''), (''password'', ''pw''),
             (''remember'', ''false''), (''grant_type'', ''password'')] =
           ''username=joe&password=pw&remember=false&grant_type=password''"
    by (simp add: params_toString_def form_encode_def encode_byte_def unreserved_def)
  have g: "truthy (accessToken ?snap)" "truthy (refreshToken ?snap)"
      "expiring demo_env 200000 (tokenData ?snap) = Inr True" "truthy (accessTokenLS ?snap)"
    by (simp_all add: run_defs demo_defs)
  have pin: "a = Some ''new'' \<and> rt = Some ''r2''"
    if "read_prop (data ?r) ''access_token'' = Some (of_nullable a)"
      and "read_prop (data ?r) ''refresh_token'' = Some (of_nullable rt)" for a rt
    using that
    by (simp add: read_prop_def get_prop_def demo_pair_def of_nullable_def split: option.splits)
  note t = runTokenRequest_persists_by_remember [where env = demo_env and now = 200000
      and now' = 200000 and creds = "[]" and user = "''joe''" and password = "''pw''"
      and snap = ?snap and w = ?w and options = "demo_get ''/foo''" and remember = True]
  note f = runTokenRequest_persists_by_remember [where env = demo_env and now = 200000
      and now' = 200000 and creds = "[]" and user = "''joe''" and password = "''pw''"
      and snap = ?snap and w = ?w and options = "demo_get ''/foo''" and remember = False]
  from t ft obtain a rt where
    pa: "read_prop (data ?r) ''access_token'' = Some (of_nullable a)" and
    pr: "read_prop (data ?r) ''refresh_token'' = Some (of_nullable rt)" and
    s: "localStorage (snd (login demo_env 200000 ''joe'' ''pw'' True ?snap ?w)) =
       \<lparr>access_token = Some (case a of None \<Rightarrow> ''null'' | Some s \<Rightarrow> s),
        refresh_token = Some (case rt of None \<Rightarrow> ''null'' | Some s \<Rightarrow> s)\<rparr>"
    "sessionStorage (snd (login demo_env 200000 ''joe'' ''pw'' True ?snap ?w)) =
       \<lparr>access_token = None, refresh_token = None\<rparr>"
    by auto
  from s pin [OF pa pr]
  have 1: "localStorage (snd (login demo_env 200000 ''joe'' ''pw'' True ?snap ?w)) =
       \<lparr>access_token = Some ''new'', refresh_token = Some ''r2''\<rparr>"
    "sessionStorage (snd (login demo_env 200000 ''joe'' ''pw'' True ?snap ?w)) =
       \<lparr>access_token = None, refresh_token = None\<rparr>"
    by simp_all
  from f ff obtain a rt where
    pa: "read_prop (data ?r) ''access_token'' = Some (of_nullable a)" and
    pr: "read_prop (data ?r) ''refresh_token'' = Some (of_nullable rt)" and
    s: "sessionStorage (snd (login demo_env 200000 ''joe'' ''pw'' False ?snap ?w)) =
       \<lparr>access_token = Some (case a of None \<Rightarrow> ''null'' | Some s \<Rightarrow> s),
        refresh_token = Some (case rt of None \<Rightarrow> ''null'' | Some s \<Rightarrow> s)\<rparr>"
    "localStorage (snd (login demo_env 200000 ''joe'' ''pw'' False ?snap ?w)) =
       \<lparr>access_token = None, refresh_token = None\<rparr>"
    by auto
  from s pin [OF pa pr]
  have 2: "sessionStorage (snd (login demo_env 200000 ''joe'' ''pw'' False ?snap ?w)) =
       \<lparr>access_token = Some ''new'', refresh_token = Some ''r2''\<rparr>"
    "localStorage (snd (login demo_env 200000 ''joe'' ''pw'' False ?snap ?w)) =
       \<lparr>access_token = None, refresh_token = None\<rparr>"
    by simp_all
  from f n have 3: "calls (snd (login demo_env 200000 ''joe'' ''pw'' False ?snap ?w)) =
     [Fetch ''/api/oauth2/token/'' POST
        (Some [(''Content-Type'', ''application/x-www-form-urlencoded'')])
        (Some ''username=joe&password=pw&remember=false&grant_type=password'')]"
    by (simp add: c e)
  from f g fr obtain a rt where
    pa: "read_prop (data ?r) ''access_token'' = Some (of_nullable a)" and
    pr: "read_prop (data ?r) ''refresh_token'' = Some (of_nullable rt)" and
    s: "localStorage (snd (snd (request demo_env 200000 200000 (demo_get ''/foo'') ?snap ?w))) =
       \<lparr>access_token = Some (case a of None \<Rightarrow> ''null'' | Some s \<Rightarrow> s),
        refresh_token = Some (case rt of None \<Rightarrow> ''null'' | Some s \<Rightarrow> s)\<rparr>"
    "sessionStorage (snd (snd (request demo_env 200000 200000 (demo_get ''/foo'') ?snap ?w))) =
       \<lparr>access_token = None, refresh_token = None\<rparr>"
    by auto
  from s pin [OF pa pr]
  have 4:
    "localStorage (snd (snd (request demo_env 200000 200000 (demo_get ''/foo'') ?snap ?w))) =
       \<lparr>access_token = Some ''new'', refresh_token = Some ''r2''\<rparr>"
    "sessionStorage (snd (snd (request demo_env 200000 200000 (demo_get ''/foo'') ?snap ?w))) =
       \<lparr>access_token = None, refresh_token = None\<rparr>"
    by simp_all
  from ft ff 1 2 3 4 g(4) show ?thesis
    by simp
qed

section \<open>The storage invariant is kept\<close>

lemma at_most_one_runTokenRequest:
  "at_most_one_scope (snd (runTokenRequest env now creds snap w))"
proof (cases "fst (runTokenRequest env now creds snap w)")
  case (Inl e)
  show ?thesis
  proof (cases rule: still_valid_cases [of env now "fst (current_tokens w)"])
    case (raised k)
    then show ?thesis
      by (simp add: runTokenRequest_raised at_most_one_scope_def scope_empty_def
          storage_clear_tokens)
  next
    case stored
    with Inl show ?thesis by (simp add: runTokenRequest_stored)
  next
    case call
    with Inl show ?thesis
      by (simp add: runTokenRequest_call at_most_one_scope_def scope_empty_def
          storage_runRawRequest storage_clear_tokens split: sum.splits)
  qed
next
  case (Inr r)
  from runTokenRequest_success [OF Inr] obtain w2 where
    l: "localStorage w2 = \<lparr>access_token = None, refresh_token = None\<rparr>" and
    s: "sessionStorage w2 = \<lparr>access_token = None, refresh_token = None\<rparr>" and
    w: "snd (runTokenRequest env now creds snap w) = persist env creds r w2"
    by blast
  show ?thesis
    using persist_cleared [OF l s, of creds env r]
    by (cases "params_get creds ''remember'' = Some ''true''")
      (simp_all add: w at_most_one_scope_def scope_empty_def)
qed

lemma at_most_one_calls: "at_most_one_scope (w\<lparr>calls := c\<rparr>) = at_most_one_scope w"
  by (simp add: at_most_one_scope_def)

lemma at_most_one_runRawRequest:
  "at_most_one_scope (snd (runRawRequest env snap options w)) = at_most_one_scope w"
  by (simp add: at_most_one_scope_def storage_runRawRequest)

lemma at_most_one_clear_tokens: "at_most_one_scope (clear_tokens w)"
  by (simp add: at_most_one_scope_def scope_empty_def storage_clear_tokens)

lemma at_most_one_logout_inv:
  assumes "at_most_one_scope w"
  shows "at_most_one_scope (snd (logout env snap w))"
proof (cases "truthy (refreshToken snap)")
  case False
  then show ?thesis
    by (simp add: logout_no_refresh_token at_most_one_clear_tokens)
next
  case True
  show ?thesis
    using assms
    by (simp add: logout_revoke [OF True] at_most_one_clear_tokens at_most_one_runRawRequest
        split: sum.splits)
qed

lemma at_most_one_logout_success:
  assumes "fst (logout env snap w) = Inr r"
  shows "at_most_one_scope (snd (logout env snap w))"
proof (cases "truthy (refreshToken snap)")
  case False
  then show ?thesis
    by (simp add: logout_no_refresh_token at_most_one_clear_tokens)
next
  case True
  show ?thesis
    using assms
    by (simp add: logout_revoke [OF True] at_most_one_clear_tokens split: sum.splits)
qed

lemma at_most_one_request:
  assumes "at_most_one_scope w"
  shows "at_most_one_scope (snd (snd (request env now now' options snap w)))"
proof (cases "truthy (accessToken snap)")
  case False
  then show ?thesis using assms by (simp add: request_missing_token)
next
  case True
  show ?thesis
  proof (cases rule: expiring_cases [of env now "tokenData snap"])
    case (raised k)
    show ?thesis
      using assms by (simp add: request_raised [OF True raised])
  next
    case later
    show ?thesis
      using assms by (simp add: request_no_refresh [OF True later] at_most_one_runRawRequest)
  next
    case soon
    show ?thesis
    proof (cases "truthy (refreshToken snap)")
      case False
      then show ?thesis
        using assms by (simp add: request_no_refresh [OF True soon] at_most_one_runRawRequest)
    next
      case r: True
      have t: "at_most_one_scope (snd (runTokenRequest env now' (refresh_creds snap) snap w))"
        by (rule at_most_one_runTokenRequest)
      obtain res w1 where p: "runTokenRequest env now' (refresh_creds snap) snap w = (res, w1)"
        by (cases "runTokenRequest env now' (refresh_creds snap) snap w")
      from t p have "at_most_one_scope w1" by simp
      then show ?thesis
        by (cases res)
          (simp_all add: request_refresh [OF True soon r] p at_most_one_runRawRequest)
    qed
  qed
qed

lemma logout_failed_storage:
  assumes "fst (logout env snap w) = Inl e"
  shows "localStorage (snd (logout env snap w)) = localStorage w"
    and "sessionStorage (snd (logout env snap w)) = sessionStorage w"
proof -
  from assms have t: "truthy (refreshToken snap)"
    by (cases "truthy (refreshToken snap)") (simp_all add: logout_no_refresh_token)
  from assms show "localStorage (snd (logout env snap w)) = localStorage w"
    and "sessionStorage (snd (logout env snap w)) = sessionStorage w"
    by (simp_all add: logout_revoke [OF t] storage_runRawRequest split: sum.splits)
qed

text \<open>
  C7 (amended). A login and a refresh through the coordinator leave at most one storage
  scope holding a token, whether they succeed or fail, whatever the storage held before;
  so does a logout that succeeds, which clears both scopes. A logout that fails leaves
  both scopes as they were, so at most one scope holds a token after it when that was so
  before it; and \<open>request\<close>, which refreshes through the coordinator, keeps the
  invariant. The current token is the value of the durable scope when that is non-empty
  and the value of the session scope otherwise, in a render of the hook and in the
  re-read of the coordinator alike.
\<close>

theorem at_most_one_scope_holds_tokens:
  "at_most_one_scope (snd (runTokenRequest env now creds snap w))
   \<and> at_most_one_scope (snd (login env now user password remember snap w))
   \<and> (\<forall>r. fst (logout env snap w) = Inr r \<longrightarrow> at_most_one_scope (snd (logout env snap w)))
   \<and> (\<forall>e. fst (logout env snap w) = Inl e \<longrightarrow>
         localStorage (snd (logout env snap w)) = localStorage w
         \<and> sessionStorage (snd (logout env snap w)) = sessionStorage w)
   \<and> (at_most_one_scope w \<longrightarrow> at_most_one_scope (snd (logout env snap w)))
   \<and> (at_most_one_scope w \<longrightarrow>
        at_most_one_scope (snd (snd (request env now now' options snap w))))
   \<and> accessToken snap =
        (if truthy (accessTokenLS snap) then accessTokenLS snap else accessTokenSS snap)
   \<and> refreshToken snap =
        (if truthy (refreshTokenLS snap) then refreshTokenLS snap else refreshTokenSS snap)
   \<and> accessToken (useAPI env w) =
        (if truthy (access_token (localStorage w)) then access_token (localStorage w)
         else access_token (sessionStorage w))
   \<and> refreshToken (useAPI env w) =
        (if truthy (refresh_token (localStorage w)) then refresh_token (localStorage w)
         else refresh_token (sessionStorage w))
   \<and> current_tokens w = (accessToken (useAPI env w), refreshToken (useAPI env w))"
proof (intro conjI allI impI)
  show "at_most_one_scope (snd (runTokenRequest env now creds snap w))"
    by (rule at_most_one_runTokenRequest)
  show "at_most_one_scope (snd (login env now user password remember snap w))"
    unfolding login_def by (rule at_most_one_runTokenRequest)
  show "at_most_one_scope (snd (logout env snap w))" if "fst (logout env snap w) = Inr r" for r
    using that by (rule at_most_one_logout_success)
  show "localStorage (snd (logout env snap w)) = localStorage w"
    if "fst (logout env snap w) = Inl e" for e
    using that by (rule logout_failed_storage)
  show "sessionStorage (snd (logout env snap w)) = sessionStorage w"
    if "fst (logout env snap w) = Inl e" for e
    using that by (rule logout_failed_storage)
  show "at_most_one_scope (snd (logout env snap w))" if "at_most_one_scope w"
    using that by (rule at_most_one_logout_inv)
  show "at_most_one_scope (snd (snd (request env now now' options snap w)))"
    if "at_most_one_scope w"
    using that by (rule at_most_one_request)
qed (simp_all add: accessToken_def refreshToken_def useAPI_def js_or_def current_tokens_def)

theorem at_most_one_scope_holds_tokens_witness:
  "\<not> at_most_one_scope demo_both
   \<and> at_most_one_scope (snd (login demo_env 200000 ''joe'' ''pw'' False
        (useAPI demo_env demo_both) demo_both))
   \<and> fst (logout (demo_env\<lparr>fetch := (\<lambda>h req. Resolved \<lparr>status = 204, ok = True,
             statusText = ''No Content'', json = Inl ''Unexpected end of JSON input''\<rparr>)\<rparr>)
          (useAPI demo_env demo_both) demo_both) = Inr \<lparr>code = 204, data = None\<rparr>
   \<and> at_most_one_scope (snd (logout (demo_env\<lparr>fetch := (\<lambda>h req. Resolved \<lparr>status = 204,
             ok = True, statusText = ''No Content'',
             json = Inl ''Unexpected end of JSON input''\<rparr>)\<rparr>)
          (useAPI demo_env demo_both) demo_both))
   \<and> at_most_one_scope (demo_world ''old'')
   \<and> fst (logout demo_env (useAPI demo_env (demo_world ''old'')) (demo_world ''old'')) =
        Inl (APIError ''Failed to fetch'' (- 1))
   \<and> localStorage (snd (logout demo_env (useAPI demo_env (demo_world ''old''))
        (demo_world ''old''))) = \<lparr>access_token = Some ''old'', refresh_token = Some ''r1''\<rparr>
   \<and> at_most_one_scope (snd (logout demo_env (useAPI demo_env (demo_world ''old''))
        (demo_world ''old'')))
   \<and> at_most_one_scope (snd (snd (request demo_env 200000 200000 (demo_get ''/foo'')
        (useAPI demo_env (demo_world ''old'')) (demo_world ''old''))))
   \<and> accessToken (useAPI demo_env demo_both) = Some ''old''"
proof -
  let ?ok = "demo_env\<lparr>fetch := (\<lambda>h req. Resolved \<lparr>status = 204, ok = True,
             statusText = ''No Content'', json = Inl ''Unexpected end of JSON input''\<rparr>)\<rparr>"
  have b: "\<not> at_most_one_scope demo_both"
    by (simp add: at_most_one_scope_def scope_empty_def demo_both_def)
  have i: "at_most_one_scope (demo_world ''old'')"
    by (simp add: at_most_one_scope_def scope_empty_def demo_world_def)
  have t: "truthy (access_token (localStorage demo_both))"
    by (simp add: truthy_def demo_both_def)
  have a: "access_token (localStorage demo_both) = Some ''old''"
    by (simp add: demo_both_def)
  have l: "localStorage (demo_world ''old'') =
      \<lparr>access_token = Some ''old'', refresh_token = Some ''r1''\<rparr>"
    by (simp add: demo_world_def)
  have s: "fst (logout ?ok (useAPI demo_env demo_both) demo_both) =
      Inr \<lparr>code = 204, data = None\<rparr>"
    by (simp add: run_defs demo_defs Let_def)
  have f: "fst (logout demo_env (useAPI demo_env (demo_world ''old'')) (demo_world ''old'')) =
        Inl (APIError ''Failed to fetch'' (- 1))"
    by (simp add: run_defs demo_defs Let_def)
  from b i t s f
    at_most_one_scope_holds_tokens [where env = demo_env
      and snap = "useAPI demo_env demo_both" and w = demo_both
      and now = 200000 and now' = 200000 and options = "demo_get ''/foo''"
      and creds = "[]" and user = "''joe''" and password = "''pw''" and remember = False]
    at_most_one_scope_holds_tokens [where env = ?ok
      and snap = "useAPI demo_env demo_both" and w = demo_both
      and now = 200000 and now' = 200000 and options = "demo_get ''/foo''"
      and creds = "[]" and user = "''joe''" and password = "''pw''" and remember = False]
    at_most_one_scope_holds_tokens [where env = demo_env
      and snap = "useAPI demo_env (demo_world ''old'')" and w = "demo_world ''old''"
      and now = 200000 and now' = 200000 and options = "demo_get ''/foo''"
      and creds = "[]" and user = "''joe''" and password = "''pw''" and remember = False]
  show ?thesis by (simp add: a l useAPI_def)
qed

text \<open>
  A logout whose revoke call fails, over a storage whose two scopes both hold a pair
  (as a test of the repository sets up): the operation completes with the error, and
  both scopes still hold the pair.
\<close>

theorem at_most_one_scope_holds_tokens_counterexample:
  "logout demo_env (useAPI demo_env demo_both) demo_both =
     (Inl (APIError ''Failed to fetch'' (- 1)),
      \<lparr>localStorage = \<lparr>access_token = Some ''old'', refresh_token = Some ''r1''\<rparr>,
       sessionStorage = \<lparr>access_token = Some ''old'', refresh_token = Some ''r1''\<rparr>,
       calls = [Fetch ''/api/oauth2/logout/'' POST
                  (Some [(''Content-Type'', ''application/x-www-form-urlencoded'')])
                  (Some ''refresh_token=r1&grant_type=refresh_token'')]\<rparr>)
   \<and> \<not> at_most_one_scope (snd (logout demo_env (useAPI demo_env demo_both) demo_both))"
  by (simp add: run_defs demo_defs Let_def at_most_one_scope_def scope_empty_def
      params_toString_def form_encode_def encode_byte_def unreserved_def)

section \<open>Authenticated requests\<close>

lemma request_refresh_observed:
  assumes "truthy (accessToken snap)"
      and "expiring env now (tokenData snap) = Inr True"
      and "truthy (refreshToken snap)"
  shows "(\<forall>e w1. runTokenRequest env now' (refresh_creds snap) snap w = (Inl e, w1) \<longrightarrow>
            fst (request env now now' options snap w) = Inl e
            \<and> snd (snd (request env now now' options snap w)) = w1)
       \<and> (\<forall>tokResp w1. runTokenRequest env now' (refresh_creds snap) snap w = (Inr tokResp, w1) \<longrightarrow>
            (\<exists>a hs. read_prop (data tokResp) ''access_token'' = Some (of_nullable a)
               \<and> (still_valid env now' (fst (current_tokens w)) = Inr False \<longrightarrow> a \<noteq> None)
               \<and> map_of hs ''Authorization'' =
                   Some (''Bearer '' @ (case a of None \<Rightarrow> ''null'' | Some s \<Rightarrow> s))
               \<and> calls (snd (snd (request env now now' options snap w))) =
                   calls w1 @ [fetch_request (options\<lparr>headers := Some hs\<rparr>)]
               \<and> fst (request env now now' options snap w) =
                   fst (runRawRequest env snap (options\<lparr>headers := Some hs\<rparr>) w1)))"
proof (intro conjI allI impI)
  fix e w1
  assume "runTokenRequest env now' (refresh_creds snap) snap w = (Inl e, w1)"
  then show "fst (request env now now' options snap w) = Inl e"
    and "snd (snd (request env now now' options snap w)) = w1"
    by (simp_all add: request_refresh [OF assms])
next
  fix tokResp w1
  assume t: "runTokenRequest env now' (refresh_creds snap) snap w = (Inr tokResp, w1)"
  then have "fst (runTokenRequest env now' (refresh_creds snap) snap w) = Inr tokResp"
    by simp
  from runTokenRequest_success [OF this] obtain a where
    a: "read_prop (data tokResp) ''access_token'' = Some (of_nullable a)" and
    n: "still_valid env now' (fst (current_tokens w)) = Inr False \<longrightarrow> a \<noteq> None"
    by blast
  let ?hs = "AList.update ''Authorization''
      (''Bearer '' @ js_String env (read_prop (data tokResp) ''access_token''))
      (request_headers env snap options)"
  have "map_of ?hs ''Authorization'' =
      Some (''Bearer '' @ (case a of None \<Rightarrow> ''null'' | Some s \<Rightarrow> s))"
    by (simp add: update_conv' a js_String_of_nullable)
  moreover have "calls (snd (snd (request env now now' options snap w))) =
      calls w1 @ [fetch_request (options\<lparr>headers := Some ?hs\<rparr>)]"
    by (simp add: request_refresh [OF assms] t calls_runRawRequest)
  moreover have "fst (request env now now' options snap w) =
      fst (runRawRequest env snap (options\<lparr>headers := Some ?hs\<rparr>) w1)"
    by (simp add: request_refresh [OF assms] t)
  ultimately show "\<exists>a hs. read_prop (data tokResp) ''access_token'' = Some (of_nullable a)
               \<and> (still_valid env now' (fst (current_tokens w)) = Inr False \<longrightarrow> a \<noteq> None)
               \<and> map_of hs ''Authorization'' =
                   Some (''Bearer '' @ (case a of None \<Rightarrow> ''null'' | Some s \<Rightarrow> s))
               \<and> calls (snd (snd (request env now now' options snap w))) =
                   calls w1 @ [fetch_request (options\<lparr>headers := Some hs\<rparr>)]
               \<and> fst (request env now now' options snap w) =
                   fst (runRawRequest env snap (options\<lparr>headers := Some hs\<rparr>) w1)"
    using a n by blast
qed

lemma expiring_number:
  assumes "get_prop (Some td) ''exp'' = Inr (Some (JNum e))"
  shows "expiring env now td = Inr (e < real_of_int now / 1000 + 10)"
  using assms by (auto simp: expiring_def js_Number_def js_minus_def js_lt_def)

lemma expiring_no_claims:
  "expiring env now no_claims = Inr (- 10000 < now)"
  by (auto simp: expiring_def no_claims_def get_prop_def js_Number_def js_minus_def js_lt_def)

text \<open>
  C2 (amended). \<open>request\<close> tests the expiry of the claims the render of the hook holds
  in \<open>tokenData\<close>: the decoded claims of the current access token once the effect of
  the render has run, the zero claims in the first render. A numeric expiry is inside
  the window when it is strictly less than now + 10 seconds; the expiry 0 of the zero
  claims is inside it at every time since the epoch. For every render that has a current
  access token and a current refresh token and whose held claims have their expiry
  inside the window, \<open>request\<close> invokes the coordinator once, with
  \<open>grant_type=refresh_token\<close> and \<open>remember\<close> telling whether the durable scope holds
  the access token, before the target call. When the coordinator fails, its error is
  the result and no target call is made; when it succeeds, the target call follows it
  with the \<open>Authorization\<close> header set to the access token obtained. The coordinator
  makes its one call to the token endpoint when the token it re-reads is not valid any
  more, and none otherwise.
\<close>

theorem request_refreshes_before_call:
  "(\<forall>e. get_prop (Some (tokenData snap)) ''exp'' = Inr (Some (JNum e)) \<longrightarrow>
      expiring env now (tokenData snap) = Inr (e < real_of_int now / 1000 + 10))
   \<and> tokenData (useAPI env w) = decode_token env (accessToken (useAPI env w))
   \<and> tokenData (first_render w) = no_claims
   \<and> (0 \<le> now \<longrightarrow> expiring env now no_claims = Inr True)
   \<and> (truthy (accessToken snap) \<and> truthy (refreshToken snap)
        \<and> expiring env now (tokenData snap) = Inr True \<longrightarrow>
       (\<forall>e w1. runTokenRequest env now'
                   [(''refresh_token'', or_empty (refreshToken snap)),
                    (''remember'', if truthy (accessTokenLS snap) then ''true'' else ''false''),
                    (''grant_type'', ''refresh_token'')] snap w = (Inl e, w1) \<longrightarrow>
            fst (request env now now' options snap w) = Inl e
            \<and> snd (snd (request env now now' options snap w)) = w1)
       \<and> (\<forall>tokResp w1. runTokenRequest env now'
                   [(''refresh_token'', or_empty (refreshToken snap)),
                    (''remember'', if truthy (accessTokenLS snap) then ''true'' else ''false''),
                    (''grant_type'', ''refresh_token'')] snap w = (Inr tokResp, w1) \<longrightarrow>
            (\<exists>a hs. read_prop (data tokResp) ''access_token'' = Some (of_nullable a)
               \<and> (still_valid env now' (fst (current_tokens w)) = Inr False \<longrightarrow> a \<noteq> None)
               \<and> map_of hs ''Authorization'' =
                   Some (''Bearer '' @ (case a of None \<Rightarrow> ''null'' | Some s \<Rightarrow> s))
               \<and> calls (snd (snd (request env now now' options snap w))) =
                   calls w1 @ [fetch_request (options\<lparr>headers := Some hs\<rparr>)]
               \<and> fst (request env now now' options snap w) =
                   fst (runRawRequest env snap (options\<lparr>headers := Some hs\<rparr>) w1)))
       \<and> calls (snd (runTokenRequest env now'
                   [(''refresh_token'', or_empty (refreshToken snap)),
                    (''remember'', if truthy (accessTokenLS snap) then ''true'' else ''false''),
                    (''grant_type'', ''refresh_token'')] snap w)) =
            (if still_valid env now' (fst (current_tokens w)) = Inr False then
               calls w @ [Fetch ''/api/oauth2/token/'' POST
                    (Some [(''Content-Type'', ''application/x-www-form-urlencoded'')])
                    (Some (params_toString
                       [(''refresh_token'', or_empty (refreshToken snap)),
                        (''remember'', if truthy (accessTokenLS snap) then ''true'' else ''false''),
                        (''grant_type'', ''refresh_token'')]))]
             else calls w))"
proof -
  have 1: "\<forall>e. get_prop (Some (tokenData snap)) ''exp'' = Inr (Some (JNum e)) \<longrightarrow>
      expiring env now (tokenData snap) = Inr (e < real_of_int now / 1000 + 10)"
    by (simp add: expiring_number)
  have 2: "tokenData (useAPI env w) = decode_token env (accessToken (useAPI env w))"
    by (simp add: useAPI_def accessToken_def)
  have 3: "tokenData (first_render w) = no_claims"
    by (simp add: first_render_def)
  have 4: "0 \<le> now \<longrightarrow> expiring env now no_claims = Inr True"
    by (simp add: expiring_no_claims)
  have 5: ?thesis
    if h: "truthy (accessToken snap) \<and> truthy (refreshToken snap)
        \<and> expiring env now (tokenData snap) = Inr True"
  proof -
    from h have a: "truthy (accessToken snap)" and r: "truthy (refreshToken snap)"
      and x: "expiring env now (tokenData snap) = Inr True"
      by simp_all
    from request_refresh_observed [where now' = now' and w = w and options = options, OF a x r]
      1 2 3 4 h
    show ?thesis
      by (simp only: refresh_creds_def calls_runTokenRequest simp_thms)
  qed
  show ?thesis
  proof (cases "truthy (accessToken snap) \<and> truthy (refreshToken snap)
        \<and> expiring env now (tokenData snap) = Inr True")
    case True
    then show ?thesis by (rule 5)
  next
    case False
    with 1 2 3 4 show ?thesis by (simp only: simp_thms)
  qed
qed

text \<open>The world after a refresh of the example storage through the token endpoint.\<close>

lemma demo_refresh:
  "runTokenRequest demo_env 200000
     [(''refresh_token'', ''r1''), (''remember'', ''true''), (''grant_type'', ''refresh_token'')]
     (useAPI demo_env (demo_world tok)) (demo_world tok) =
   (Inr \<lparr>code = 200, data = Some demo_pair\<rparr>,
    \<lparr>localStorage = \<lparr>access_token = Some ''new'', refresh_token = Some ''r2''\<rparr>,
     sessionStorage = \<lparr>access_token = None, refresh_token = None\<rparr>,
     calls = [Fetch ''/api/oauth2/token/'' POST
                (Some [(''Content-Type'', ''application/x-www-form-urlencoded'')])
                (Some (params_toString [(''refresh_token'', ''r1''), (''remember'', ''true''),
                                        (''grant_type'', ''refresh_token'')]))]\<rparr>)"
  if "tok = ''old'' \<or> tok = ''junk''"
  using that by (auto simp: run_defs demo_defs)

text \<open>
  The coordinator called from the first render over a storage whose token \<open>new\<close> is
  still valid: it returns the pair it re-reads, without a call.
\<close>

lemma demo_reread:
  "runTokenRequest demo_env 50000
     [(''refresh_token'', ''r1''), (''remember'', ''true''), (''grant_type'', ''refresh_token'')]
     (first_render (demo_world ''new'')) (demo_world ''new'') =
   (Inr \<lparr>code = 200,
         data = Some (JObj [(''access_token'', JStr ''new''), (''refresh_token'', JStr ''r1''),
                            (''token_type'', JStr ''bearer'')])\<rparr>,
    \<lparr>localStorage = \<lparr>access_token = Some ''new'', refresh_token = Some ''r1''\<rparr>,
     sessionStorage = \<lparr>access_token = None, refresh_token = None\<rparr>,
     calls = []\<rparr>)"
  by (simp add: run_defs demo_defs)

lemma demo_snapshot:
  "tok \<noteq> [] \<Longrightarrow> truthy (accessToken (useAPI demo_env (demo_world tok)))"
  "truthy (refreshToken (useAPI demo_env (demo_world tok)))"
  "tokenData (useAPI demo_env (demo_world tok)) =
     decode_token demo_env (accessToken (useAPI demo_env (demo_world tok)))"
  "tok \<noteq> [] \<Longrightarrow> or_empty (accessToken (useAPI demo_env (demo_world tok))) = tok"
  "or_empty (refreshToken (useAPI demo_env (demo_world tok))) = ''r1''"
  "tok \<noteq> [] \<Longrightarrow> truthy (accessTokenLS (useAPI demo_env (demo_world tok)))"
  by (simp_all add: useAPI_def accessToken_def refreshToken_def demo_world_def value_defs)

lemma demo_first_render:
  "tok \<noteq> [] \<Longrightarrow> truthy (accessToken (first_render (demo_world tok)))"
  "truthy (refreshToken (first_render (demo_world tok)))"
  "tokenData (first_render (demo_world tok)) = no_claims"
  "or_empty (refreshToken (first_render (demo_world tok))) = ''r1''"
  "tok \<noteq> [] \<Longrightarrow> truthy (accessTokenLS (first_render (demo_world tok)))"
  by (simp_all add: first_render_def accessToken_def refreshToken_def demo_world_def value_defs)

theorem request_refreshes_before_call_witness:
  "expiring demo_env 200000 (tokenData (useAPI demo_env (demo_world ''old''))) = Inr True
   \<and> (\<exists>hs. map_of hs ''Authorization'' = Some ''Bearer new''
      \<and> calls (snd (snd (request demo_env 200000 200000 (demo_get ''/foo'')
                  (useAPI demo_env (demo_world ''old'')) (demo_world ''old'')))) =
          [Fetch ''/api/oauth2/token/'' POST
             (Some [(''Content-Type'', ''application/x-www-form-urlencoded'')])
             (Some (params_toString [(''refresh_token'', ''r1''), (''remember'', ''true''),
                                     (''grant_type'', ''refresh_token'')])),
           Fetch ''/foo'' GET (Some hs) None])
   \<and> expiring demo_env 50000 (tokenData (first_render (demo_world ''new''))) = Inr True
   \<and> still_valid demo_env 50000 (fst (current_tokens (demo_world ''new''))) = Inr True
   \<and> (\<exists>hs. map_of hs ''Authorization'' = Some ''Bearer new''
      \<and> calls (snd (snd (request demo_env 50000 50000 (demo_get ''/foo'')
                  (first_render (demo_world ''new'')) (demo_world ''new'')))) =
          [Fetch ''/foo'' GET (Some hs) None])"
proof -
  let ?snap = "useAPI demo_env (demo_world ''old'')"
  let ?first = "first_render (demo_world ''new'')"
  have e: "expiring demo_env 200000 (tokenData ?snap) = Inr True"
    by (simp add: run_defs demo_defs)
  have e': "expiring demo_env 50000 (tokenData ?first) = Inr True"
    by (simp add: run_defs demo_defs)
  have v: "still_valid demo_env 50000 (fst (current_tokens (demo_world ''new''))) = Inr True"
    by (simp add: run_defs demo_defs)
  note th = request_refreshes_before_call [where env = demo_env and snap = ?snap
      and now = 200000 and now' = 200000 and w = "demo_world ''old''"
      and options = "demo_get ''/foo''"]
  note th' = request_refreshes_before_call [where env = demo_env and snap = ?first
      and now = 50000 and now' = 50000 and w = "demo_world ''new''"
      and options = "demo_get ''/foo''"]
  from th e demo_refresh [of "''old''"]
  obtain a hs where
    a: "read_prop (Some demo_pair) ''access_token'' = Some (of_nullable a)" and
    h: "map_of hs ''Authorization'' =
          Some (''Bearer '' @ (case a of None \<Rightarrow> ''null'' | Some s \<Rightarrow> s))" and
    c: "calls (snd (snd (request demo_env 200000 200000 (demo_get ''/foo'') ?snap
          (demo_world ''old'')))) =
        [Fetch ''/api/oauth2/token/'' POST
             (Some [(''Content-Type'', ''application/x-www-form-urlencoded'')])
             (Some (params_toString [(''refresh_token'', ''r1''), (''remember'', ''true''),
                                     (''grant_type'', ''refresh_token'')]))]
        @ [fetch_request ((demo_get ''/foo'')\<lparr>headers := Some hs\<rparr>)]"
    by (auto simp: demo_snapshot)
  from a have "a = Some ''new''"
    by (simp add: read_prop_def get_prop_def demo_pair_def of_nullable_def split: option.splits)
  with h c have 1: "\<exists>hs. map_of hs ''Authorization'' = Some ''Bearer new''
      \<and> calls (snd (snd (request demo_env 200000 200000 (demo_get ''/foo'') ?snap
             (demo_world ''old'')))) =
          [Fetch ''/api/oauth2/token/'' POST
             (Some [(''Content-Type'', ''application/x-www-form-urlencoded'')])
             (Some (params_toString [(''refresh_token'', ''r1''), (''remember'', ''true''),
                                     (''grant_type'', ''refresh_token'')])),
           Fetch ''/foo'' GET (Some hs) None]"
    by (intro exI [of _ hs]) (simp add: fetch_request_def demo_get_def)
  from th' e' demo_reread
  obtain a' hs' where
    a': "read_prop (Some (JObj [(''access_token'', JStr ''new''),
           (''refresh_token'', JStr ''r1''), (''token_type'', JStr ''bearer'')]))
           ''access_token'' = Some (of_nullable a')" and
    h': "map_of hs' ''Authorization'' =
          Some (''Bearer '' @ (case a' of None \<Rightarrow> ''null'' | Some s \<Rightarrow> s))" and
    c': "calls (snd (snd (request demo_env 50000 50000 (demo_get ''/foo'') ?first
          (demo_world ''new'')))) =
        [] @ [fetch_request ((demo_get ''/foo'')\<lparr>headers := Some hs'\<rparr>)]"
    by (auto simp: demo_first_render)
  from a' have "a' = Some ''new''"
    by (simp add: read_prop_def get_prop_def of_nullable_def split: option.splits)
  with h' c' have 2: "\<exists>hs. map_of hs ''Authorization'' = Some ''Bearer new''
      \<and> calls (snd (snd (request demo_env 50000 50000 (demo_get ''/foo'') ?first
             (demo_world ''new'')))) = [Fetch ''/foo'' GET (Some hs) None]"
    by (intro exI [of _ hs']) (simp add: fetch_request_def demo_get_def)
  from e e' v 1 2 show ?thesis
    by (simp only: simp_thms)
qed

text \<open>
  The claim as the specification states it fails at the boundary: the token \<open>old\<close>
  expires at second 110, and at the time 100 s, exactly ten seconds before, with a
  refresh token at hand, \<open>request\<close> does not invoke the coordinator, which would have
  called the token endpoint (it runs at 200 s here): the one call made is the target
  call, with the old token.
\<close>

theorem request_refreshes_before_call_counterexample:
  "get_prop (Some (decode_token demo_env (accessToken (useAPI demo_env (demo_world ''old'')))))
      ''exp'' = Inr (Some (JNum (real_of_int 100000 / 1000 + 10)))
   \<and> tokenData (useAPI demo_env (demo_world ''old'')) =
       decode_token demo_env (accessToken (useAPI demo_env (demo_world ''old'')))
   \<and> truthy (refreshToken (useAPI demo_env (demo_world ''old'')))
   \<and> still_valid demo_env 200000 (fst (current_tokens (demo_world ''old''))) = Inr False
   \<and> calls (snd (snd (request demo_env 100000 200000 (demo_get ''/foo'')
                  (useAPI demo_env (demo_world ''old'')) (demo_world ''old'')))) =
       [Fetch ''/foo'' GET (Some [(''Authorization'', ''Bearer old'')]) None]"
  by (simp add: run_defs demo_defs Let_def)

text \<open>
  C10. For every current access token that is non-empty but that the decoder rejects,
  when a refresh token is also held, \<open>request\<close> does not stop with
  \<open>Missing access token\<close>: the claims the hook holds for it are the zero claims, whose
  expiry 0 is inside the ten-second window at every time since the epoch, so the
  coordinator is invoked with the refresh credentials. When the storage is the one the
  hook rendered, the coordinator re-reads the same token and calls the token endpoint;
  when the coordinator fails its error is the result, and when it succeeds the target
  call follows with the \<open>Authorization\<close> header set to the access token obtained.
\<close>

theorem request_undecodable_token_refreshes:
  assumes "truthy (accessToken snap)" and "jwtDecode env (or_empty (accessToken snap)) = None"
      and "tokenData snap = decode_token env (accessToken snap)"
      and "truthy (refreshToken snap)" and "0 \<le> now"
  shows "tokenData snap = no_claims
       \<and> get_prop (Some (tokenData snap)) ''exp'' = Inr (Some (JNum 0))
       \<and> expiring env now (tokenData snap) = Inr True
       \<and> (\<forall>e w1. runTokenRequest env now' (refresh_creds snap) snap w = (Inl e, w1) \<longrightarrow>
            request env now now' options snap w =
              (Inl e, options\<lparr>headers := Some (request_headers env snap options)\<rparr>, w1))
       \<and> (\<forall>tokResp w1. runTokenRequest env now' (refresh_creds snap) snap w = (Inr tokResp, w1) \<longrightarrow>
            (\<exists>a hs. read_prop (data tokResp) ''access_token'' = Some (of_nullable a)
               \<and> map_of hs ''Authorization'' =
                   Some (''Bearer '' @ (case a of None \<Rightarrow> ''null'' | Some s \<Rightarrow> s))
               \<and> request env now now' options snap w =
                   (fst (runRawRequest env snap (options\<lparr>headers := Some hs\<rparr>) w1),
                    options\<lparr>headers := Some hs\<rparr>,
                    snd (runRawRequest env snap (options\<lparr>headers := Some hs\<rparr>) w1))))
       \<and> (snap = useAPI env w \<and> 0 \<le> now' \<longrightarrow>
            calls (snd (runTokenRequest env now' (refresh_creds snap) snap w)) =
              calls w @ [Fetch ''/api/oauth2/token/'' POST
                    (Some [(''Content-Type'', ''application/x-www-form-urlencoded'')])
                    (Some (params_toString
                       [(''refresh_token'', or_empty (refreshToken snap)),
                        (''remember'', if truthy (accessTokenLS snap) then ''true'' else ''false''),
                        (''grant_type'', ''refresh_token'')]))])"
proof -
  have z: "decode_token env (accessToken snap) = no_claims"
    using assms(1,2) by (simp add: decode_try_def decode_token_outcome_def decode_token_def)
  with assms(3) have x: "tokenData snap = no_claims"
    by simp
  then have y: "get_prop (Some (tokenData snap)) ''exp'' = Inr (Some (JNum 0))"
    by (simp add: no_claims_def get_prop_def)
  from x assms(5) have g: "expiring env now (tokenData snap) = Inr True"
    by (simp add: expiring_no_claims)
  note r = request_refresh [where now' = now' and w = w and options = options,
      OF assms(1) g assms(4)]
  have f: "request env now now' options snap w =
              (Inl e, options\<lparr>headers := Some (request_headers env snap options)\<rparr>, w1)"
    if "runTokenRequest env now' (refresh_creds snap) snap w = (Inl e, w1)" for e w1
    using that by (simp add: r)
  have s: "\<exists>a hs. read_prop (data tokResp) ''access_token'' = Some (of_nullable a)
               \<and> map_of hs ''Authorization'' =
                   Some (''Bearer '' @ (case a of None \<Rightarrow> ''null'' | Some s \<Rightarrow> s))
               \<and> request env now now' options snap w =
                   (fst (runRawRequest env snap (options\<lparr>headers := Some hs\<rparr>) w1),
                    options\<lparr>headers := Some hs\<rparr>,
                    snd (runRawRequest env snap (options\<lparr>headers := Some hs\<rparr>) w1))"
    if t: "runTokenRequest env now' (refresh_creds snap) snap w = (Inr tokResp, w1)"
    for tokResp w1
  proof -
    from t have "fst (runTokenRequest env now' (refresh_creds snap) snap w) = Inr tokResp"
      by simp
    from runTokenRequest_success [OF this] obtain a where
      a: "read_prop (data tokResp) ''access_token'' = Some (of_nullable a)"
      by blast
    let ?hs = "AList.update ''Authorization''
      (''Bearer '' @ js_String env (read_prop (data tokResp) ''access_token''))
      (request_headers env snap options)"
    have "map_of ?hs ''Authorization'' =
        Some (''Bearer '' @ (case a of None \<Rightarrow> ''null'' | Some s \<Rightarrow> s))"
      by (simp add: update_conv' a js_String_of_nullable)
    moreover have "request env now now' options snap w =
        (fst (runRawRequest env snap (options\<lparr>headers := Some ?hs\<rparr>) w1),
         options\<lparr>headers := Some ?hs\<rparr>,
         snd (runRawRequest env snap (options\<lparr>headers := Some ?hs\<rparr>) w1))"
      by (simp add: r t)
    ultimately show ?thesis using a by blast
  qed
  have c: "calls (snd (runTokenRequest env now' (refresh_creds snap) snap w)) =
              calls w @ [Fetch ''/api/oauth2/token/'' POST
                    (Some [(''Content-Type'', ''application/x-www-form-urlencoded'')])
                    (Some (params_toString
                       [(''refresh_token'', or_empty (refreshToken snap)),
                        (''remember'', if truthy (accessTokenLS snap) then ''true'' else ''false''),
                        (''grant_type'', ''refresh_token'')]))]"
    if "snap = useAPI env w" "0 \<le> now'"
  proof -
    from that(1) have "fst (current_tokens w) = accessToken snap"
      by (simp add: current_tokens_def accessToken_def useAPI_def)
    with z that(2) have "still_valid env now' (fst (current_tokens w)) = Inr False"
      by (simp add: still_valid_def no_claims_def get_prop_def js_Number_def js_gt_def)
    then show ?thesis
      by (simp add: calls_runTokenRequest refresh_creds_def)
  qed
  from x y g f s c show ?thesis by blast
qed

theorem request_undecodable_token_refreshes_witness:
  "jwtDecode demo_env (or_empty (accessToken (useAPI demo_env (demo_world ''junk'')))) = None
   \<and> (\<exists>hs. map_of hs ''Authorization'' = Some ''Bearer new''
        \<and> calls (snd (snd (request demo_env 200000 200000 (demo_get ''/foo'')
                  (useAPI demo_env (demo_world ''junk'')) (demo_world ''junk'')))) =
          [Fetch ''/api/oauth2/token/'' POST
             (Some [(''Content-Type'', ''application/x-www-form-urlencoded'')])
             (Some (params_toString [(''refresh_token'', ''r1''), (''remember'', ''true''),
                                     (''grant_type'', ''refresh_token'')])),
           Fetch ''/foo'' GET (Some hs) None])"
proof -
  let ?snap = "useAPI demo_env (demo_world ''junk'')"
  have "or_empty (accessToken ?snap) = ''junk''"
    by (simp add: demo_snapshot)
  then have j: "jwtDecode demo_env (or_empty (accessToken ?snap)) = None"
    by (simp add: demo_env_def demo_claims_def)
  have n: "(0::int) \<le> 200000"
    by simp
  have t: "runTokenRequest demo_env 200000 (refresh_creds ?snap) ?snap (demo_world ''junk'') =
    (Inr \<lparr>code = 200, data = Some demo_pair\<rparr>,
    \<lparr>localStorage = \<lparr>access_token = Some ''new'', refresh_token = Some ''r2''\<rparr>,
     sessionStorage = \<lparr>access_token = None, refresh_token = None\<rparr>,
     calls = [Fetch ''/api/oauth2/token/'' POST
                (Some [(''Content-Type'', ''application/x-www-form-urlencoded'')])
                (Some (params_toString [(''refresh_token'', ''r1''), (''remember'', ''true''),
                                        (''grant_type'', ''refresh_token'')]))]\<rparr>)"
    using demo_refresh [of "''junk''"] by (simp add: refresh_creds_def demo_snapshot)
  have k: "truthy (accessToken ?snap)"
    by (simp add: demo_snapshot)
  note th = request_undecodable_token_refreshes [OF k j demo_snapshot(3) demo_snapshot(2) n,
      where now' = 200000 and w = "demo_world ''junk''" and options = "demo_get ''/foo''"]
  from th t obtain a hs where
    a: "read_prop (Some demo_pair) ''access_token'' = Some (of_nullable a)" and
    h: "map_of hs ''Authorization'' =
          Some (''Bearer '' @ (case a of None \<Rightarrow> ''null'' | Some s \<Rightarrow> s))" and
    c: "request demo_env 200000 200000 (demo_get ''/foo'') ?snap (demo_world ''junk'') =
         (fst (runRawRequest demo_env ?snap ((demo_get ''/foo'')\<lparr>headers := Some hs\<rparr>)
            \<lparr>localStorage = \<lparr>access_token = Some ''new'', refresh_token = Some ''r2''\<rparr>,
     sessionStorage = \<lparr>access_token = None, refresh_token = None\<rparr>,
     calls = [Fetch ''/api/oauth2/token/'' POST
                (Some [(''Content-Type'', ''application/x-www-form-urlencoded'')])
                (Some (params_toString [(''refresh_token'', ''r1''), (''remember'', ''true''),
                                        (''grant_type'', ''refresh_token'')]))]\<rparr>),
          (demo_get ''/foo'')\<lparr>headers := Some hs\<rparr>,
          snd (runRawRequest demo_env ?snap ((demo_get ''/foo'')\<lparr>headers := Some hs\<rparr>)
            \<lparr>localStorage = \<lparr>access_token = Some ''new'', refresh_token = Some ''r2''\<rparr>,
     sessionStorage = \<lparr>access_token = None, refresh_token = None\<rparr>,
     calls = [Fetch ''/api/oauth2/token/'' POST
                (Some [(''Content-Type'', ''application/x-www-form-urlencoded'')])
                (Some (params_toString [(''refresh_token'', ''r1''), (''remember'', ''true''),
                                        (''grant_type'', ''refresh_token'')]))]\<rparr>))"
    by auto
  from a have "a = Some ''new''"
    by (simp add: read_prop_def get_prop_def demo_pair_def of_nullable_def split: option.splits)
  with h c j show ?thesis
    by (intro conjI exI [of _ hs])
      (simp_all add: calls_runRawRequest fetch_request_def demo_get_def)
qed

lemma default_headers_eq:
  assumes "truthy (accessToken snap)"
  shows "default_headers env snap m =
           (if m \<noteq> GET then
              [(''Authorization'', ''Bearer '' @ or_empty (accessToken snap)),
               (''Content-Type'', ''application/json'')]
            else [(''Authorization'', ''Bearer '' @ or_empty (accessToken snap))])"
  using assms
  by (cases "accessToken snap") (simp_all add: default_headers_def value_defs)

text \<open>
  C8 (amended). \<open>request\<close> assigns to the descriptor it is passed, in its \<open>headers\<close>
  field only. When it fails for a missing access token the descriptor is as it was.
  Otherwise, for a caller that supplied no headers it sets \<open>options.headers\<close> to a new
  mapping holding \<open>Authorization: Bearer\<close> with the current access token, and
  \<open>Content-Type: application/json\<close> for a method other than GET; the headers a
  caller supplied stay. After a refresh that succeeded it overwrites the
  \<open>Authorization\<close> entry of these headers, the caller's own included, with the access
  token obtained. The headers the descriptor ends with are those of the target call;
  when the read of the expiry throws, the headers are assigned and no call is made.
\<close>

theorem request_assigns_headers_only:
  "(\<exists>hs. fst (snd (request env now now' options snap w)) = options\<lparr>headers := hs\<rparr>)
   \<and> (\<not> truthy (accessToken snap) \<longrightarrow> fst (snd (request env now now' options snap w)) = options)
   \<and> (\<forall>k. truthy (accessToken snap) \<and> expiring env now (tokenData snap) = Inl k \<longrightarrow>
        fst (request env now now' options snap w) = Inl (TypeError (nullReadMessage env k))
        \<and> headers (fst (snd (request env now now' options snap w))) =
            Some (request_headers env snap options)
        \<and> snd (snd (request env now now' options snap w)) = w)
   \<and> (truthy (accessToken snap)
        \<and> (expiring env now (tokenData snap) = Inr False
            \<or> expiring env now (tokenData snap) = Inr True \<and> \<not> truthy (refreshToken snap)) \<longrightarrow>
        headers (fst (snd (request env now now' options snap w))) =
          Some (request_headers env snap options)
        \<and> calls (snd (snd (request env now now' options snap w))) =
            calls w @ [fetch_request (fst (snd (request env now now' options snap w)))])
   \<and> (truthy (accessToken snap)
        \<and> expiring env now (tokenData snap) = Inr True
        \<and> truthy (refreshToken snap) \<longrightarrow>
        (\<forall>e w1. runTokenRequest env now' (refresh_creds snap) snap w = (Inl e, w1) \<longrightarrow>
           headers (fst (snd (request env now now' options snap w))) =
             Some (request_headers env snap options))
        \<and> (\<forall>tokResp w1. runTokenRequest env now' (refresh_creds snap) snap w = (Inr tokResp, w1) \<longrightarrow>
           headers (fst (snd (request env now now' options snap w))) =
             Some (AList.update ''Authorization''
                     (''Bearer '' @ js_String env (read_prop (data tokResp) ''access_token''))
                     (request_headers env snap options))
           \<and> calls (snd (snd (request env now now' options snap w))) =
               calls w1 @ [fetch_request (fst (snd (request env now now' options snap w)))]))
   \<and> (\<forall>h. headers options = Some h \<longrightarrow> request_headers env snap options = h)
   \<and> (headers options = None \<and> truthy (accessToken snap) \<longrightarrow>
        request_headers env snap options =
          (if http_method options \<noteq> GET then
             [(''Authorization'', ''Bearer '' @ or_empty (accessToken snap)),
              (''Content-Type'', ''application/json'')]
           else [(''Authorization'', ''Bearer '' @ or_empty (accessToken snap))]))"
proof (intro conjI impI allI)
  show "\<exists>hs. fst (snd (request env now now' options snap w)) = options\<lparr>headers := hs\<rparr>"
  proof (cases "truthy (accessToken snap)")
    case False
    then have "fst (snd (request env now now' options snap w)) = options\<lparr>headers := headers options\<rparr>"
      by (simp add: request_missing_token)
    then show ?thesis ..
  next
    case True
    show ?thesis
    proof (cases rule: expiring_cases [of env now "tokenData snap"])
      case (raised k)
      show ?thesis
        by (simp add: request_raised [OF True raised]) blast
    next
      case later
      show ?thesis
        by (simp add: request_no_refresh [OF True later]) blast
    next
      case soon
      show ?thesis
      proof (cases "truthy (refreshToken snap)")
        case False
        then show ?thesis
          by (simp add: request_no_refresh [OF True soon]) blast
      next
        case r: True
        obtain res w1 where p: "runTokenRequest env now' (refresh_creds snap) snap w = (res, w1)"
          by (cases "runTokenRequest env now' (refresh_creds snap) snap w")
        show ?thesis
          by (cases res) (simp_all add: request_refresh [OF True soon r] p, blast+)
      qed
    qed
  qed
next
  assume "\<not> truthy (accessToken snap)"
  then show "fst (snd (request env now now' options snap w)) = options"
    by (simp add: request_missing_token)
next
  fix k
  assume a: "truthy (accessToken snap) \<and> expiring env now (tokenData snap) = Inl k"
  then have t: "truthy (accessToken snap)" and x: "expiring env now (tokenData snap) = Inl k"
    by simp_all
  show "fst (request env now now' options snap w) = Inl (TypeError (nullReadMessage env k))"
    and "headers (fst (snd (request env now now' options snap w))) =
            Some (request_headers env snap options)"
    and "snd (snd (request env now now' options snap w)) = w"
    by (simp_all add: request_raised [OF t x])
next
  assume a: "truthy (accessToken snap)
        \<and> (expiring env now (tokenData snap) = Inr False
            \<or> expiring env now (tokenData snap) = Inr True \<and> \<not> truthy (refreshToken snap))"
  then have t: "truthy (accessToken snap)"
    by simp
  from a obtain soon where x: "expiring env now (tokenData snap) = Inr soon"
    and n: "\<not> (soon \<and> truthy (refreshToken snap))"
    by auto
  show "headers (fst (snd (request env now now' options snap w))) =
          Some (request_headers env snap options)"
    and "calls (snd (snd (request env now now' options snap w))) =
            calls w @ [fetch_request (fst (snd (request env now now' options snap w)))]"
    by (simp_all add: request_no_refresh [OF t x n] calls_runRawRequest)
next
  fix e w1
  assume a: "truthy (accessToken snap)
        \<and> expiring env now (tokenData snap) = Inr True
        \<and> truthy (refreshToken snap)"
    and p: "runTokenRequest env now' (refresh_creds snap) snap w = (Inl e, w1)"
  from a show "headers (fst (snd (request env now now' options snap w))) =
             Some (request_headers env snap options)"
    by (simp add: request_refresh p)
next
  fix tokResp w1
  assume a: "truthy (accessToken snap)
        \<and> expiring env now (tokenData snap) = Inr True
        \<and> truthy (refreshToken snap)"
    and p: "runTokenRequest env now' (refresh_creds snap) snap w = (Inr tokResp, w1)"
  from a show "headers (fst (snd (request env now now' options snap w))) =
             Some (AList.update ''Authorization''
                     (''Bearer '' @ js_String env (read_prop (data tokResp) ''access_token''))
                     (request_headers env snap options))"
    and "calls (snd (snd (request env now now' options snap w))) =
               calls w1 @ [fetch_request (fst (snd (request env now now' options snap w)))]"
    by (simp_all add: request_refresh p calls_runRawRequest)
next
  fix h
  assume "headers options = Some h"
  then show "request_headers env snap options = h"
    by (simp add: request_headers_def)
next
  assume "headers options = None \<and> truthy (accessToken snap)"
  then show "request_headers env snap options =
          (if http_method options \<noteq> GET then
             [(''Authorization'', ''Bearer '' @ or_empty (accessToken snap)),
              (''Content-Type'', ''application/json'')]
           else [(''Authorization'', ''Bearer '' @ or_empty (accessToken snap))])"
    by (simp add: request_headers_def default_headers_eq)
qed

theorem request_assigns_headers_only_witness:
  "headers (fst (snd (request demo_env 50000 50000 (demo_get ''/foo'')
              (useAPI demo_env (demo_world ''new'')) (demo_world ''new'')))) =
     Some [(''Authorization'', ''Bearer new'')]
   \<and> calls (snd (snd (request demo_env 50000 50000 (demo_get ''/foo'')
              (useAPI demo_env (demo_world ''new'')) (demo_world ''new'')))) =
     [Fetch ''/foo'' GET (Some [(''Authorization'', ''Bearer new'')]) None]
   \<and> request demo_env 50000 50000 (demo_get ''/foo'')
        (useAPI demo_env (demo_world ''h.bnVsbA.s'')) (demo_world ''h.bnVsbA.s'') =
       (Inl (TypeError ''Cannot read properties of null''),
        (demo_get ''/foo'')\<lparr>headers := Some [(''Authorization'', ''Bearer h.bnVsbA.s'')]\<rparr>,
        demo_world ''h.bnVsbA.s'')"
proof -
  let ?snap = "useAPI demo_env (demo_world ''new'')"
  let ?null = "useAPI demo_env (demo_world ''h.bnVsbA.s'')"
  have t: "truthy (accessToken ?snap)" "truthy (accessToken ?null)"
    by (simp_all add: demo_snapshot)
  have n: "expiring demo_env 50000 (tokenData ?snap) = Inr False"
    by (simp add: run_defs demo_defs)
  have x: "expiring demo_env 50000 (tokenData ?null) = Inl ''exp''"
    by (simp add: run_defs demo_defs)
  have h: "headers (demo_get ''/foo'') = None"
    by (simp add: demo_get_def)
  have m: "http_method (demo_get ''/foo'') = GET"
    by (simp add: demo_get_def)
  have q: "nullReadMessage demo_env ''exp'' = ''Cannot read properties of null''"
    by (simp add: demo_env_def)
  note th = request_assigns_headers_only [where env = demo_env and snap = ?snap
      and now = 50000 and now' = 50000 and options = "demo_get ''/foo''"
      and w = "demo_world ''new''"]
  note th' = request_assigns_headers_only [where env = demo_env and snap = ?null
      and now = 50000 and now' = 50000 and options = "demo_get ''/foo''"
      and w = "demo_world ''h.bnVsbA.s''"]
  from th t n h m have
    a: "headers (fst (snd (request demo_env 50000 50000 (demo_get ''/foo'') ?snap
          (demo_world ''new'')))) = Some [(''Authorization'', ''Bearer new'')]" and
    c: "calls (snd (snd (request demo_env 50000 50000 (demo_get ''/foo'') ?snap
          (demo_world ''new'')))) =
        calls (demo_world ''new'') @ [fetch_request (fst (snd (request demo_env 50000 50000
          (demo_get ''/foo'') ?snap (demo_world ''new''))))]" and
    "\<exists>hs. fst (snd (request demo_env 50000 50000 (demo_get ''/foo'') ?snap
          (demo_world ''new''))) = (demo_get ''/foo'')\<lparr>headers := hs\<rparr>"
    by (simp_all add: demo_snapshot)
  then obtain hs where
    o: "fst (snd (request demo_env 50000 50000 (demo_get ''/foo'') ?snap (demo_world ''new'')))
          = (demo_get ''/foo'')\<lparr>headers := hs\<rparr>"
    by blast
  with a have "hs = Some [(''Authorization'', ''Bearer new'')]"
    by simp
  with a c o have 1: "headers (fst (snd (request demo_env 50000 50000 (demo_get ''/foo'')
              ?snap (demo_world ''new'')))) = Some [(''Authorization'', ''Bearer new'')]
   \<and> calls (snd (snd (request demo_env 50000 50000 (demo_get ''/foo'')
              ?snap (demo_world ''new'')))) =
     [Fetch ''/foo'' GET (Some [(''Authorization'', ''Bearer new'')]) None]"
    by (simp add: fetch_request_def demo_get_def demo_world_def)
  from th' t x h m q have
    r: "fst (request demo_env 50000 50000 (demo_get ''/foo'') ?null (demo_world ''h.bnVsbA.s''))
          = Inl (TypeError ''Cannot read properties of null'')" and
    a': "headers (fst (snd (request demo_env 50000 50000 (demo_get ''/foo'') ?null
          (demo_world ''h.bnVsbA.s'')))) = Some [(''Authorization'', ''Bearer h.bnVsbA.s'')]" and
    w': "snd (snd (request demo_env 50000 50000 (demo_get ''/foo'') ?null
          (demo_world ''h.bnVsbA.s''))) = demo_world ''h.bnVsbA.s''" and
    "\<exists>hs. fst (snd (request demo_env 50000 50000 (demo_get ''/foo'') ?null
          (demo_world ''h.bnVsbA.s''))) = (demo_get ''/foo'')\<lparr>headers := hs\<rparr>"
    by (simp_all add: demo_snapshot)
  then obtain hs' where
    o': "fst (snd (request demo_env 50000 50000 (demo_get ''/foo'') ?null
          (demo_world ''h.bnVsbA.s''))) = (demo_get ''/foo'')\<lparr>headers := hs'\<rparr>"
    by blast
  with a' have "hs' = Some [(''Authorization'', ''Bearer h.bnVsbA.s'')]"
    by simp
  with r o' w' have 2: "request demo_env 50000 50000 (demo_get ''/foo'') ?null
      (demo_world ''h.bnVsbA.s'') =
       (Inl (TypeError ''Cannot read properties of null''),
        (demo_get ''/foo'')\<lparr>headers := Some [(''Authorization'', ''Bearer h.bnVsbA.s'')]\<rparr>,
        demo_world ''h.bnVsbA.s'')"
    by (cases "request demo_env 50000 50000 (demo_get ''/foo'') ?null
      (demo_world ''h.bnVsbA.s'')") simp
  from 1 2 show ?thesis
    by (simp only: simp_thms)
qed

text \<open>
  The claim as the specification states it fails: the descriptor of a caller that
  supplied no headers has a \<open>headers\<close> mapping after the call; and after a refresh the
  \<open>Authorization\<close> entry of the headers a caller did supply is overwritten.
\<close>

theorem request_assigns_headers_only_counterexample:
  "headers (demo_get ''/foo'') = None
   \<and> headers (fst (snd (request demo_env 50000 50000 (demo_get ''/foo'')
              (useAPI demo_env (demo_world ''new'')) (demo_world ''new'')))) =
       Some [(''Authorization'', ''Bearer new'')]
   \<and> headers (fst (snd (request demo_env 200000 200000
              ((demo_get ''/foo'')\<lparr>headers := Some [(''Authorization'', ''Basic abc''),
                                                   (''Accept'', ''text/plain'')]\<rparr>)
              (useAPI demo_env (demo_world ''old'')) (demo_world ''old'')))) =
       Some [(''Authorization'', ''Bearer new''), (''Accept'', ''text/plain'')]"
  by (simp add: run_defs demo_defs Let_def)

section \<open>Concurrent token requests are serialised\<close>

lemma enter_raised:
  assumes "still_valid env (clock s) (fst (current_tokens (world s))) = Inl k"
  shows "enter env procs i s =
           s\<lparr>world := clear_tokens (world s), holder := Some i,
             flows := (flows s)(i := Raised (TypeError (nullReadMessage env k)))\<rparr>"
  using assms by (cases "current_tokens (world s)") (simp add: enter_def)

lemma enter_stored:
  assumes "still_valid env (clock s) (fst (current_tokens (world s))) = Inr True"
  shows "enter env procs i s =
           s\<lparr>world := clear_tokens (world s), holder := Some i,
             flows := (flows s)(i := Stored (stored_response (fst (current_tokens (world s)))
                                               (snd (current_tokens (world s)))))\<rparr>"
  using assms by (cases "current_tokens (world s)") (simp add: enter_def)

lemma enter_call:
  assumes "still_valid env (clock s) (fst (current_tokens (world s))) = Inr False"
  shows "enter env procs i s =
           s\<lparr>world := (clear_tokens (world s))
                \<lparr>calls := calls (world s) @ [token_call procs i]\<rparr>,
             holder := Some i,
             flows := (flows s)(i := InFlight (fetch env (calls (world s)) (token_call procs i))),
             callers := callers s @ [i]\<rparr>"
  using assms
  by (cases "current_tokens (world s)") (simp add: enter_def Let_def calls_clear_tokens)

lemma leave_raised:
  assumes "flows s i = Raised e"
  shows "leave env procs i s = s\<lparr>holder := None, flows := (flows s)(i := Finished (Inl e))\<rparr>"
  using assms by (simp add: leave_def)

lemma leave_stored:
  assumes "flows s i = Stored r"
  shows "leave env procs i s =
           s\<lparr>world := persist env (fst (procs i)) r (world s), holder := None,
             flows := (flows s)(i := Finished (Inr r))\<rparr>"
  using assms by (simp add: leave_def)

lemma leave_call:
  assumes "flows s i = InFlight res"
  shows "leave env procs i s =
           (case settle env (snd (procs i)) (token_request (fst (procs i))) res of
              Inl e \<Rightarrow> s\<lparr>holder := None, flows := (flows s)(i := Finished (Inl e))\<rparr>
            | Inr r \<Rightarrow> s\<lparr>world := persist env (fst (procs i)) r (world s), holder := None,
                         flows := (flows s)(i := Finished (Inr r))\<rparr>)"
  using assms by (simp add: leave_def split: sum.splits)

text \<open>
  One caller alone, entering and leaving at one time, does what \<open>runTokenRequest\<close> does.
\<close>

lemma enter_leave_runTokenRequest:
  "world (leave env procs i (enter env procs i s)) =
     snd (runTokenRequest env (clock s) (fst (procs i)) (snd (procs i)) (world s))
   \<and> flows (leave env procs i (enter env procs i s)) i =
     Finished (fst (runTokenRequest env (clock s) (fst (procs i)) (snd (procs i)) (world s)))
   \<and> holder (leave env procs i (enter env procs i s)) = None"
proof (cases rule: still_valid_cases [of env "clock s" "fst (current_tokens (world s))"])
  case (raised k)
  then show ?thesis
    by (simp add: enter_raised leave_raised runTokenRequest_raised)
next
  case stored
  then show ?thesis
    by (simp add: enter_stored leave_stored runTokenRequest_stored)
next
  case call
  then show ?thesis
    by (simp add: enter_call leave_call runTokenRequest_call runRawRequest_def Let_def
        calls_clear_tokens token_call_def split: sum.splits)
qed































end
